theory Spec2Isabelle
  imports Complex_Main
begin

section \<open>JavaScript numbers\<close>

text \<open>
  The Store and the workflows compute with JavaScript numbers. A number is modelled as
  an exact rational or one of the three special values of IEEE 754 that the code can
  produce by dividing by zero. Rounding, overflow to infinity and the sign of zero
  are left out: every zero divisor of the code is a sum started at \<open>0\<close> or a list
  length, hence \<open>+0\<close>, and a number divided by it gives the infinity of its own sign,
  \<open>0 / 0\<close> gives \<open>NaN\<close>.
\<close>

datatype jsnum = Fin rat | PInf | NInf | NaN

fun jadd :: "jsnum \<Rightarrow> jsnum \<Rightarrow> jsnum" where
  "jadd NaN y = NaN"
| "jadd x NaN = NaN"
| "jadd (Fin a) (Fin b) = Fin (a + b)"
| "jadd PInf NInf = NaN"
| "jadd NInf PInf = NaN"
| "jadd PInf y = PInf"
| "jadd x PInf = PInf"
| "jadd NInf y = NInf"
| "jadd x NInf = NInf"

fun jmul :: "jsnum \<Rightarrow> jsnum \<Rightarrow> jsnum" where
  "jmul NaN y = NaN"
| "jmul x NaN = NaN"
| "jmul (Fin a) (Fin b) = Fin (a * b)"
| "jmul (Fin a) PInf = (if a = 0 then NaN else if 0 < a then PInf else NInf)"
| "jmul (Fin a) NInf = (if a = 0 then NaN else if 0 < a then NInf else PInf)"
| "jmul PInf (Fin b) = (if b = 0 then NaN else if 0 < b then PInf else NInf)"
| "jmul NInf (Fin b) = (if b = 0 then NaN else if 0 < b then NInf else PInf)"
| "jmul PInf PInf = PInf"
| "jmul PInf NInf = NInf"
| "jmul NInf PInf = NInf"
| "jmul NInf NInf = PInf"

fun jdiv :: "jsnum \<Rightarrow> jsnum \<Rightarrow> jsnum" where
  "jdiv NaN y = NaN"
| "jdiv x NaN = NaN"
| "jdiv (Fin a) (Fin b) =
     (if b = 0 then (if a = 0 then NaN else if 0 < a then PInf else NInf)
      else Fin (a / b))"
| "jdiv (Fin a) PInf = Fin 0"
| "jdiv (Fin a) NInf = Fin 0"
| "jdiv PInf (Fin b) = (if 0 \<le> b then PInf else NInf)"
| "jdiv NInf (Fin b) = (if 0 \<le> b then NInf else PInf)"
| "jdiv PInf PInf = NaN"
| "jdiv PInf NInf = NaN"
| "jdiv NInf PInf = NaN"
| "jdiv NInf NInf = NaN"

text \<open>\<^verbatim>\<open>Math.min(a, b)\<close>: \<open>NaN\<close> if either argument is \<open>NaN\<close>.\<close>

fun Math_min :: "jsnum \<Rightarrow> jsnum \<Rightarrow> jsnum" where
  "Math_min NaN y = NaN"
| "Math_min x NaN = NaN"
| "Math_min NInf y = NInf"
| "Math_min x NInf = NInf"
| "Math_min PInf y = y"
| "Math_min x PInf = x"
| "Math_min (Fin a) (Fin b) = Fin (min a b)"

text \<open>\<^verbatim>\<open>xs.reduce((sum, x) => sum + x, 0)\<close> on numbers.\<close>

definition jsum :: "jsnum list \<Rightarrow> jsnum" where
  "jsum xs = foldl jadd (Fin 0) xs"

text \<open>The order \<open>a <= b\<close> of JavaScript: false as soon as one side is \<open>NaN\<close>.\<close>

fun jle :: "jsnum \<Rightarrow> jsnum \<Rightarrow> bool" where
  "jle NaN y = False"
| "jle x NaN = False"
| "jle NInf y = True"
| "jle x PInf = True"
| "jle (Fin a) (Fin b) = (a \<le> b)"
| "jle x NInf = False"
| "jle PInf y = False"

section \<open>Strings and objects\<close>

text \<open>
  \<^verbatim>\<open>String.prototype.toLowerCase\<close> belongs to the language, not to this program: the
  operations that call it take it as their first argument \<open>lc\<close>, and what is proved of
  them holds for every such function.
\<close>

text \<open>
  The Store keeps its sessions, chat histories and quizzes in plain objects and reads
  them with \<^verbatim>\<open>obj[id]\<close>. Such a read returns the property that the object has of its
  own under the id; for an id that is none of its own but a property name of
  \<^verbatim>\<open>Object.prototype\<close> it returns the inherited function or object, which is truthy
  and has none of the fields that the Store reads; otherwise it returns
  \<^verbatim>\<open>undefined\<close>. An object is modelled as the map of its own properties. The ids
  under which the gateway and the quiz workflow store a session or a quiz are generated
  (\<^verbatim>\<open>session_\<close>, \<^verbatim>\<open>quiz_\<close>, then the time and random digits); the assignment
  \<^verbatim>\<open>obj['__proto__'] = v\<close>, which adds no property, and what a write on an inherited
  value does to \<^verbatim>\<open>Object.prototype\<close> itself are not followed.
\<close>

definition prototype_names :: "string list" where
  "prototype_names =
     [''constructor'', ''__defineGetter__'', ''__defineSetter__'', ''hasOwnProperty'',
      ''__lookupGetter__'', ''__lookupSetter__'', ''isPrototypeOf'',
      ''propertyIsEnumerable'', ''toString'', ''valueOf'', ''__proto__'',
      ''toLocaleString'']"

datatype 'a found = Own 'a | Inherited | Absent

definition object_get :: "(string \<rightharpoonup> 'a) \<Rightarrow> string \<Rightarrow> 'a found" where
  "object_get obj k =
     (case obj k of
        Some v \<Rightarrow> Own v
      | None \<Rightarrow> if k \<in> set prototype_names then Inherited else Absent)"

section \<open>Data model (types.ts)\<close>

text \<open>
  The interfaces of \<^verbatim>\<open>types.ts\<close>, an optional field being an \<open>option\<close>. Counts are
  natural numbers, clock readings are integers (milliseconds), the other numbers of the
  Store are rationals, or \<open>jsnum\<close> where the Store computes them from something that
  may be missing or zero. The topic of a progress entry is \<^verbatim>\<open>undefined\<close> (\<open>None\<close>)
  when the entry was made for a session that has no topic. A chat history is kept as
  its list of messages, under its session id. A quiz result keeps the answers as
  \<open>submitQuiz\<close> receives them, an object from question id to answer.
\<close>

datatype role = User | Assistant | System

record ChatMessage =
  role :: role
  content :: string
  timestamp :: int

datatype difficulty = Beginner | Intermediate | Advanced

datatype session_status = Active | Completed | Paused

record StudySession =
  session_id :: string
  session_topic :: string
  duration :: rat
  session_difficulty :: difficulty
  startTime :: int
  endTime :: "int option"
  status :: session_status
  messagesCount :: "nat option"
  summary :: "string option"

datatype question_type = MultipleChoice | ShortAnswer | TrueFalse

record QuizQuestion =
  question_id :: string
  question :: string
  question_type :: question_type
  options :: "string list option"
  correctAnswer :: string
  explanation :: string
  points :: rat

record Quiz =
  quiz_id :: string
  quiz_topic :: string
  quiz_difficulty :: difficulty
  questions :: "QuizQuestion list"
  createdAt :: int

record QuizResult =
  quizId :: string
  score :: rat
  maxScore :: rat
  percentage :: jsnum
  completedAt :: int
  result_timeSpent :: rat
  answers :: "string \<rightharpoonup> string"

record TopicProgress =
  topic :: "string option"
  masteryLevel :: jsnum
  timeSpent :: jsnum
  sessionsCount :: nat
  quizAverage :: jsnum
  lastStudied :: int
  topic_nextReview :: "int option"

datatype activity_type = SessionActivity | QuizActivity

record ActivityRecord =
  activity_type :: activity_type
  activity_topic :: string
  activity_timestamp :: int
  activity_duration :: "rat option"
  activity_score :: "jsnum option"

record ProgressData =
  progress_userId :: string
  totalStudyTime :: jsnum
  totalSessions :: nat
  totalQuizzes :: nat
  averageScore :: jsnum
  currentStreak :: nat
  longestStreak :: nat
  topicsStudied :: "TopicProgress list"
  recentActivity :: "ActivityRecord list"

record SpacedRepetitionItem =
  item_topic :: string
  nextReview :: int
  interval :: nat
  easeFactor :: rat
  repetitions :: nat

record UserState =
  userId :: string
  sessions :: "string \<rightharpoonup> StudySession"
  chatHistories :: "string \<rightharpoonup> ChatMessage list"
  quizzes :: "string \<rightharpoonup> Quiz"
  quizResults :: "QuizResult list"
  progress :: ProgressData
  spacedRepetitionQueue :: "SpacedRepetitionItem list"

section \<open>Study State Store (durableObjects/StudyState.ts)\<close>

definition createDefaultState :: UserState where
  "createDefaultState =
     \<lparr>userId = ''default-user'',
      sessions = Map.empty,
      chatHistories = Map.empty,
      quizzes = Map.empty,
      quizResults = [],
      progress =
        \<lparr>progress_userId = ''default-user'',
         totalStudyTime = Fin 0,
         totalSessions = 0,
         totalQuizzes = 0,
         averageScore = Fin 0,
         currentStreak = 0,
         longestStreak = 0,
         topicsStudied = [],
         recentActivity = []\<rparr>,
      spacedRepetitionQueue = []\<rparr>"

text \<open>
  The errors of an operation: the 404 answer by which \<^verbatim>\<open>submitQuiz\<close> reports a quiz
  it does not find, and the 500 answer by which \<^verbatim>\<open>fetch\<close> reports an exception that
  the operation threw.
\<close>

datatype error = QuizNotFound | InternalError

text \<open>
  \<^verbatim>\<open>Date.now()\<close> is an input of every operation that reads the clock: the argument
  \<open>now\<close>. An operation that reads the clock more than once (the end of a session and
  the \<open>lastStudied\<close> of its topic; the \<open>completedAt\<close> of a result and the timestamp of
  its activity record) is given one reading for all of them.
\<close>

text \<open>
  \<^verbatim>\<open>saveChatMessage\<close> makes the history if the read of it is falsy, then pushes on
  its \<^verbatim>\<open>messages\<close>; an inherited property has none, and the push throws.
\<close>

definition saveChatMessage ::
  "string \<Rightarrow> string \<Rightarrow> string \<Rightarrow> int \<Rightarrow> UserState \<Rightarrow> (error + unit) \<times> UserState" where
  "saveChatMessage sessionId userMessage aiResponse now s =
     (let turn = [\<lparr>role = User, content = userMessage, timestamp = now\<rparr>,
                  \<lparr>role = Assistant, content = aiResponse, timestamp = now + 1\<rparr>]
      in case object_get (chatHistories s) sessionId of
           Inherited \<Rightarrow> (Inl InternalError, s)
         | Absent \<Rightarrow> (Inr (), s\<lparr>chatHistories := (chatHistories s)(sessionId \<mapsto> turn)\<rparr>)
         | Own history \<Rightarrow>
             (Inr (), s\<lparr>chatHistories := (chatHistories s)(sessionId \<mapsto> history @ turn)\<rparr>))"

text \<open>\<^verbatim>\<open>unshift\<close> is \<open>#\<close>, \<^verbatim>\<open>slice(0, 50)\<close> is \<open>take 50\<close>.\<close>

definition createSession :: "StudySession \<Rightarrow> UserState \<Rightarrow> UserState" where
  "createSession session s =
     (let p = progress s;
          activity = \<lparr>activity_type = SessionActivity,
                      activity_topic = session_topic session,
                      activity_timestamp = startTime session,
                      activity_duration = None,
                      activity_score = None\<rparr>
      in s\<lparr>sessions := (sessions s)(session_id session \<mapsto> session),
            progress := p\<lparr>totalSessions := totalSessions p + 1,
                           recentActivity := take 50 (activity # recentActivity p)\<rparr>\<rparr>)"

text \<open>
  \<^verbatim>\<open>find\<close> returns the first entry of the topic, which the code then mutates in place:
  \<open>update_first\<close> rewrites that entry where it stands.
\<close>

fun update_first :: "('a \<Rightarrow> bool) \<Rightarrow> ('a \<Rightarrow> 'a) \<Rightarrow> 'a list \<Rightarrow> 'a list" where
  "update_first P f [] = []"
| "update_first P f (x # xs) = (if P x then f x # xs else x # update_first P f xs)"

definition mastery :: "nat \<Rightarrow> jsnum \<Rightarrow> jsnum" where
  "mastery count avg = Math_min (Fin 100) (jadd (Fin (of_nat count * 10)) (jmul avg (Fin (1 / 2))))"

definition updateTopicProgress ::
  "string option \<Rightarrow> jsnum \<Rightarrow> int \<Rightarrow> UserState \<Rightarrow> UserState" where
  "updateTopicProgress t d now s =
     (let p = progress s;
          tps = (case find (\<lambda>e. topic e = t) (topicsStudied p) of
                   None \<Rightarrow> topicsStudied p @
                     [\<lparr>topic = t, masteryLevel = Fin 0, timeSpent = Fin 0, sessionsCount = 0,
                       quizAverage = Fin 0, lastStudied = now, topic_nextReview = None\<rparr>]
                 | Some e \<Rightarrow> topicsStudied p)
      in s\<lparr>progress := p\<lparr>topicsStudied :=
             update_first (\<lambda>e. topic e = t)
               (\<lambda>e. e\<lparr>timeSpent := jadd (timeSpent e) d,
                       sessionsCount := sessionsCount e + 1,
                       lastStudied := now,
                       masteryLevel := mastery (sessionsCount e + 1) (quizAverage e)\<rparr>)
               tps\<rparr>\<rparr>)"

text \<open>
  \<^verbatim>\<open>completeSession\<close> tests the read of the session for truth. For an id that is a
  property name of \<^verbatim>\<open>Object.prototype\<close> and no session of the user, the test passes
  with the inherited value: its \<^verbatim>\<open>startTime\<close> and \<^verbatim>\<open>topic\<close> are \<^verbatim>\<open>undefined\<close>,
  so the duration is \<open>NaN\<close> and the progress entry is the one of no topic. The status
  and the end time are then written on that inherited value, outside the user's
  state.
\<close>

definition completeSession :: "string \<Rightarrow> int \<Rightarrow> UserState \<Rightarrow> (error + unit) \<times> UserState" where
  "completeSession sessionId now s =
     (case object_get (sessions s) sessionId of
        Absent \<Rightarrow> (Inr (), s)
      | Own session \<Rightarrow>
          (let d = Fin (of_int (now - startTime session) / 1000 / 60);
               p = progress s;
               s1 = s\<lparr>sessions := (sessions s)(sessionId \<mapsto>
                        session\<lparr>status := Completed, endTime := Some now\<rparr>),
                      progress := p\<lparr>totalStudyTime := jadd (totalStudyTime p) d\<rparr>\<rparr>
           in (Inr (), updateTopicProgress (Some (session_topic session)) d now s1))
      | Inherited \<Rightarrow>
          (let p = progress s;
               s1 = s\<lparr>progress := p\<lparr>totalStudyTime := jadd (totalStudyTime p) NaN\<rparr>\<rparr>
           in (Inr (), updateTopicProgress None NaN now s1)))"

definition saveQuiz :: "Quiz \<Rightarrow> UserState \<Rightarrow> UserState" where
  "saveQuiz quiz s = s\<lparr>quizzes := (quizzes s)(quiz_id quiz \<mapsto> quiz)\<rparr>"

definition updateTopicQuizAverage :: "string \<Rightarrow> jsnum \<Rightarrow> UserState \<Rightarrow> UserState" where
  "updateTopicQuizAverage t sc s =
     (let p = progress s
      in case find (\<lambda>e. topic e = Some t) (topicsStudied p) of
           None \<Rightarrow> s
         | Some e \<Rightarrow>
             (let rs = filter (\<lambda>r. case object_get (quizzes s) (quizId r) of
                                      Own q \<Rightarrow> quiz_topic q = t
                                    | _ \<Rightarrow> False) (quizResults s);
                  avg = jdiv (jsum (map percentage rs)) (Fin (of_nat (length rs)))
              in s\<lparr>progress := p\<lparr>topicsStudied :=
                     update_first (\<lambda>e. topic e = Some t)
                       (\<lambda>e. e\<lparr>quizAverage := avg,
                               masteryLevel := mastery (sessionsCount e) avg\<rparr>)
                       (topicsStudied p)\<rparr>\<rparr>))"

text \<open>
  The test of one question:
  \<^verbatim>\<open>answers[question.id]?.toLowerCase() === question.correctAnswer.toLowerCase()\<close>;
  a question with no submitted answer compares \<^verbatim>\<open>undefined\<close> with a string. The
  submitted answers are the map of the own properties of the request's object, each a
  string, as the declared type \<^verbatim>\<open>Record<string, string>\<close> has them; a question whose
  id names an inherited property of that object and has no answer of its own is not
  considered.
\<close>

definition answered_correctly ::
  "(string \<Rightarrow> string) \<Rightarrow> (string \<rightharpoonup> string) \<Rightarrow> QuizQuestion \<Rightarrow> bool" where
  "answered_correctly lc ans q =
     (case ans (question_id q) of
        None \<Rightarrow> False
      | Some a \<Rightarrow> lc a = lc (correctAnswer q))"

text \<open>
  \<^verbatim>\<open>submitQuiz\<close> answers 404 when the read of the quiz is falsy. An inherited
  property passes that test and has no \<^verbatim>\<open>questions\<close>: the reduction over them throws
  before anything is written, and \<^verbatim>\<open>fetch\<close> answers 500.
\<close>

definition submitQuiz ::
  "(string \<Rightarrow> string) \<Rightarrow> string \<Rightarrow> (string \<rightharpoonup> string) \<Rightarrow> int \<Rightarrow> UserState
     \<Rightarrow> (error + QuizResult) \<times> UserState" where
  "submitQuiz lc qid ans now s =
     (case object_get (quizzes s) qid of
        Absent \<Rightarrow> (Inl QuizNotFound, s)
      | Inherited \<Rightarrow> (Inl InternalError, s)
      | Own quiz \<Rightarrow>
          (let maxScore = foldl (\<lambda>sum q. sum + points q) 0 (questions quiz);
               score = foldl (\<lambda>sc q. if answered_correctly lc ans q then sc + points q else sc)
                         0 (questions quiz);
               result = \<lparr>quizId = qid, score = score, maxScore = maxScore,
                         percentage = jmul (jdiv (Fin score) (Fin maxScore)) (Fin 100),
                         completedAt = now, result_timeSpent = 0, answers = ans\<rparr>;
               results = quizResults s @ [result];
               allScores = map percentage results;
               p = progress s;
               s1 = s\<lparr>quizResults := results,
                      progress := p\<lparr>totalQuizzes := totalQuizzes p + 1,
                        averageScore := jdiv (jsum allScores) (Fin (of_nat (length allScores))),
                        recentActivity :=
                          \<lparr>activity_type = QuizActivity, activity_topic = quiz_topic quiz,
                           activity_timestamp = now, activity_duration = None,
                           activity_score = Some (percentage result)\<rparr> # recentActivity p\<rparr>\<rparr>
           in (Inr result, updateTopicQuizAverage (quiz_topic quiz) (percentage result) s1)))"

text \<open>
  The requests that \<^verbatim>\<open>fetch\<close> routes to an operation of the Store which writes
  the state, each with the clock reading of its run. The read-only routes leave the
  state as it is. The route \<^verbatim>\<open>/progress/update\<close>, which copies whatever its request
  holds over the fields of \<open>progress\<close>, is none of the operations of the Store that the
  gateway or a workflow calls; it is left out.
\<close>

datatype request =
    ChatSave string string string
  | SessionCreate StudySession
  | SessionComplete string
  | QuizSave Quiz
  | QuizSubmit string "string \<rightharpoonup> string"

fun fetch :: "(string \<Rightarrow> string) \<Rightarrow> UserState \<Rightarrow> request \<times> int \<Rightarrow> UserState" where
  "fetch lc s (ChatSave sid um ai, now) = snd (saveChatMessage sid um ai now s)"
| "fetch lc s (SessionCreate session, now) = createSession session s"
| "fetch lc s (SessionComplete sid, now) = snd (completeSession sid now s)"
| "fetch lc s (QuizSave quiz, now) = saveQuiz quiz s"
| "fetch lc s (QuizSubmit qid ans, now) = snd (submitQuiz lc qid ans now s)"

definition run :: "(string \<Rightarrow> string) \<Rightarrow> (request \<times> int) list \<Rightarrow> UserState \<Rightarrow> UserState" where
  "run lc reqs s = foldl (fetch lc) s reqs"

section \<open>Study Session Workflow (workflows/studySession.ts)\<close>

text \<open>
  The workflow reads the topic list as JSON: \<^verbatim>\<open>JSON.stringify\<close> writes \<open>NaN\<close> and
  the infinities as \<^verbatim>\<open>null\<close> and leaves out a topic that is \<^verbatim>\<open>undefined\<close>, and
  \<^verbatim>\<open>topicProgress?.masteryLevel || 0\<close> turns \<^verbatim>\<open>null\<close>, \<^verbatim>\<open>undefined\<close> and \<open>0\<close>
  into \<open>0\<close>.
\<close>

definition number_or_zero :: "jsnum \<Rightarrow> rat" where
  "number_or_zero x = (case x of Fin a \<Rightarrow> a | _ \<Rightarrow> 0)"

record PreviousProgress =
  prev_masteryLevel :: rat
  prev_timeSpent :: rat
  prev_sessionsCount :: nat

definition load_progress :: "string \<Rightarrow> TopicProgress list \<Rightarrow> PreviousProgress" where
  "load_progress t topics =
     (case find (\<lambda>e. topic e = Some t) topics of
        None \<Rightarrow> \<lparr>prev_masteryLevel = 0, prev_timeSpent = 0, prev_sessionsCount = 0\<rparr>
      | Some e \<Rightarrow> \<lparr>prev_masteryLevel = number_or_zero (masteryLevel e),
                   prev_timeSpent = number_or_zero (timeSpent e),
                   prev_sessionsCount = sessionsCount e\<rparr>)"

record MasteryUpdate =
  previousLevel :: rat
  newLevel :: rat
  increase :: rat

definition update_mastery :: "PreviousProgress \<Rightarrow> rat \<Rightarrow> MasteryUpdate" where
  "update_mastery previousProgress d =
     (let sessionBonus = 5;
          timeBonus = min 10 (of_int \<lfloor>d / 10\<rfloor>);
          newMasteryLevel = min 100 (prev_masteryLevel previousProgress + sessionBonus + timeBonus)
      in \<lparr>previousLevel = prev_masteryLevel previousProgress,
          newLevel = newMasteryLevel,
          increase = newMasteryLevel - prev_masteryLevel previousProgress\<rparr>)"

record RepetitionSchedule =
  schedule_topic :: string
  schedule_nextReview :: int
  intervalDays :: int
  schedule_masteryLevel :: rat

definition schedule_repetition :: "string \<Rightarrow> MasteryUpdate \<Rightarrow> int \<Rightarrow> RepetitionSchedule" where
  "schedule_repetition t masteryUpdate now =
     (let days = (if 80 \<le> newLevel masteryUpdate then 7
                  else if 60 \<le> newLevel masteryUpdate then 3
                  else if 40 \<le> newLevel masteryUpdate then 2
                  else 1)
      in \<lparr>schedule_topic = t,
          schedule_nextReview = now + days * 24 * 60 * 60 * 1000,
          intervalDays = days,
          schedule_masteryLevel = newLevel masteryUpdate\<rparr>)"

section \<open>Quiz Generation Workflow (workflows/quizGenerator.ts)\<close>

text \<open>
  The questions of this workflow are untyped values: what \<^verbatim>\<open>JSON.parse\<close> made of the
  model's text. An object lists its properties, each name once; a property that is
  \<^verbatim>\<open>undefined\<close> is left out, as it is when the object is written as JSON.
\<close>

datatype json =
    JNull
  | JBool bool
  | JNum rat
  | JStr string
  | JArr "json list"
  | JObj "(string \<times> json) list"

datatype js_error = TypeError | SyntaxError

text \<open>
  \<open>property v name\<close> is \<^verbatim>\<open>v.name\<close> for a value that is not \<^verbatim>\<open>null\<close> (reading a
  property of \<^verbatim>\<open>null\<close> throws; the callers test for it) and for the names this
  workflow reads, none of which numbers, booleans, strings or arrays have.
  \<open>None\<close> is \<^verbatim>\<open>undefined\<close>.
\<close>

fun property :: "json \<Rightarrow> string \<Rightarrow> json option" where
  "property (JObj kvs) name = map_of kvs name"
| "property v name = None"

fun truthy :: "json option \<Rightarrow> bool" where
  "truthy None = False"
| "truthy (Some JNull) = False"
| "truthy (Some (JBool b)) = b"
| "truthy (Some (JNum n)) = (n \<noteq> 0)"
| "truthy (Some (JStr s)) = (s \<noteq> [])"
| "truthy (Some (JArr xs)) = True"
| "truthy (Some (JObj kvs)) = True"

text \<open>\<^verbatim>\<open>a || b\<close> with a defined right-hand side.\<close>

definition or_else :: "json option \<Rightarrow> json \<Rightarrow> json" where
  "or_else a b = (case a of None \<Rightarrow> b | Some v \<Rightarrow> if truthy a then v else b)"

text \<open>The decimal digits of a number, as a template literal writes it.\<close>

function string_of_nat :: "nat \<Rightarrow> string" where
  "string_of_nat n =
     (if n < 10 then [''0123456789'' ! n]
      else string_of_nat (n div 10) @ [''0123456789'' ! (n mod 10)])"
  by pat_completeness auto
termination
  by (relation "measure id") auto

declare string_of_nat.simps [simp del]

subsection \<open>Step 2: identify-concepts\<close>

datatype ai_outcome = AiThrows | AiResponse "string option"

text \<open>\<^verbatim>\<open>text.split(',')\<close>: the pieces between the commas, at least one.\<close>

fun split_commas :: "string \<Rightarrow> string list" where
  "split_commas [] = [[]]"
| "split_commas (c # cs) =
     (if c = CHR '','' then [] # split_commas cs
      else (case split_commas cs of p # ps \<Rightarrow> (c # p) # ps | [] \<Rightarrow> [[c]]))"

text \<open>\<^verbatim>\<open>trim\<close>, on the white space of ASCII.\<close>

definition is_space :: "char \<Rightarrow> bool" where
  "is_space c = (c \<in> set [CHR '' '', CHR 0x09, CHR 0x0A, CHR 0x0B, CHR 0x0C, CHR 0x0D])"

definition trim :: "string \<Rightarrow> string" where
  "trim s = rev (dropWhile is_space (rev (dropWhile is_space s)))"

definition identify_concepts :: "ai_outcome \<Rightarrow> string \<Rightarrow> string list" where
  "identify_concepts ai t =
     (case ai of
        AiThrows \<Rightarrow> [''Core '' @ t @ '' concepts'', t @ '' fundamentals'', t @ '' applications'']
      | AiResponse r \<Rightarrow>
          (let conceptsText = (case r of None \<Rightarrow> [] | Some x \<Rightarrow> x)
           in filter (\<lambda>c. 0 < length c) (map trim (split_commas conceptsText))))"

subsection \<open>Step 3: generate-questions\<close>

text \<open>
  \<^verbatim>\<open>concepts[i % concepts.length] || topic\<close>: with no concept the index is \<open>NaN\<close> and
  the read is \<^verbatim>\<open>undefined\<close>; an empty concept is falsy as well.
\<close>

definition fallback_concept :: "string \<Rightarrow> string list \<Rightarrow> nat \<Rightarrow> string" where
  "fallback_concept t concepts i =
     (if concepts = [] then t
      else if concepts ! (i mod length concepts) = [] then t
      else concepts ! (i mod length concepts))"

definition fallback_question :: "string \<Rightarrow> string list \<Rightarrow> nat \<Rightarrow> json" where
  "fallback_question t concepts i =
     (let concept = fallback_concept t concepts i
      in JObj [(''id'', JStr (''q'' @ string_of_nat (i + 1))),
               (''question'', JStr (''Explain your understanding of '' @ concept @ ''.'')),
               (''type'', JStr ''short-answer''),
               (''correctAnswer'', JStr ''Open-ended answer''),
               (''explanation'', JStr (''This tests your understanding of '' @ concept @ ''.'')),
               (''points'', JNum 10)])"

function fallback_loop :: "string \<Rightarrow> nat \<Rightarrow> string list \<Rightarrow> nat \<Rightarrow> json list \<Rightarrow> json list" where
  "fallback_loop t count concepts i qs =
     (if i < min count 5
      then fallback_loop t count concepts (i + 1) (qs @ [fallback_question t concepts i])
      else qs)"
  by pat_completeness auto
termination
  by (relation "measure (\<lambda>(t, count, concepts, i, qs). min count 5 - i)") auto

declare fallback_loop.simps [simp del]

definition getFallbackQuestions :: "string \<Rightarrow> nat \<Rightarrow> string list \<Rightarrow> json list" where
  "getFallbackQuestions t count concepts = fallback_loop t count concepts 0 []"

text \<open>
  \<^verbatim>\<open>content.match(/\{[\s\S]*\}/)\<close>: the text from the first \<open>{\<close> to the last \<open>}\<close>
  after it, if there is one.
\<close>

definition json_match :: "string \<Rightarrow> string option" where
  "json_match txt =
     (let from_brace = dropWhile (\<lambda>c. c \<noteq> CHR ''{'') txt;
          matched = rev (dropWhile (\<lambda>c. c \<noteq> CHR ''}'') (rev from_brace))
      in if matched = [] then None else Some matched)"

fun isArray :: "json option \<Rightarrow> bool" where
  "isArray (Some (JArr xs)) = True"
| "isArray v = False"

text \<open>\<^verbatim>\<open>response.response || '{}'\<close>: the answer of the model, if it has a text.\<close>

definition content_of :: "string option \<Rightarrow> string" where
  "content_of r = (case r of None \<Rightarrow> ''{}'' | Some x \<Rightarrow> if x = [] then ''{}'' else x)"

text \<open>
  The \<^verbatim>\<open>try\<close> block of the step, whose \<^verbatim>\<open>catch\<close> returns the fallback questions,
  whatever was thrown. Its inputs from outside: \<open>parse\<close> is \<^verbatim>\<open>JSON.parse\<close> (\<open>None\<close>
  when it throws), \<open>ai\<close> the outcome of the model call, \<open>put_ok\<close> whether writing the
  cache succeeds. The test \<^verbatim>\<open>!parsed.questions || !Array.isArray(parsed.questions)\<close>
  throws unless the property is truthy and an array; reading it from \<^verbatim>\<open>null\<close> throws
  too.
\<close>

definition extract_questions ::
  "(string \<Rightarrow> json option) \<Rightarrow> ai_outcome \<Rightarrow> bool \<Rightarrow> string \<Rightarrow> nat \<Rightarrow> string list \<Rightarrow> json" where
  "extract_questions parse ai put_ok t questionCount keyConcepts =
     (let fallback = JArr (getFallbackQuestions t questionCount keyConcepts)
      in case ai of
           AiThrows \<Rightarrow> fallback
         | AiResponse r \<Rightarrow>
             (case json_match (content_of r) of
                None \<Rightarrow> fallback
              | Some m \<Rightarrow>
                  (case parse m of
                     None \<Rightarrow> fallback
                   | Some JNull \<Rightarrow> fallback
                   | Some parsed \<Rightarrow>
                       (case property parsed ''questions'' of
                          None \<Rightarrow> fallback
                        | Some qs \<Rightarrow>
                            if truthy (Some qs) \<and> isArray (Some qs)
                            then (if put_ok then qs else fallback)
                            else fallback))))"

text \<open>
  The step: what the cache holds under the key, parsed, if it holds a text that is not
  empty (\<^verbatim>\<open>JSON.parse\<close> is outside the \<^verbatim>\<open>try\<close> there); what the \<^verbatim>\<open>try\<close> block
  gives otherwise.
\<close>

definition generate_questions ::
  "(string \<Rightarrow> json option) \<Rightarrow> string option \<Rightarrow> ai_outcome \<Rightarrow> bool \<Rightarrow>
     string \<Rightarrow> nat \<Rightarrow> string list \<Rightarrow> js_error + json" where
  "generate_questions parse cached ai put_ok t questionCount keyConcepts =
     (case cached of
        None \<Rightarrow> Inr (extract_questions parse ai put_ok t questionCount keyConcepts)
      | Some c \<Rightarrow>
          if c = [] then Inr (extract_questions parse ai put_ok t questionCount keyConcepts)
          else (case parse c of None \<Rightarrow> Inl SyntaxError | Some v \<Rightarrow> Inr v))"

subsection \<open>Step 4: validate-questions\<close>

definition field :: "string \<Rightarrow> json option \<Rightarrow> (string \<times> json) list" where
  "field name v = (case v of None \<Rightarrow> [] | Some x \<Rightarrow> [(name, x)])"

definition validatedQ :: "json \<Rightarrow> nat \<Rightarrow> json" where
  "validatedQ q n =
     JObj ([(''id'', or_else (property q ''id'') (JStr (''q'' @ string_of_nat (n + 1))))]
           @ field ''question'' (property q ''question'')
           @ [(''type'', or_else (property q ''type'') (JStr ''short-answer''))]
           @ field ''options'' (property q ''options'')
           @ field ''correctAnswer'' (property q ''correctAnswer'')
           @ field ''explanation'' (property q ''explanation'')
           @ [(''points'', or_else (property q ''points'') (JNum 10))])"

text \<open>
  The loop over the candidates, \<open>validated\<close> being the array built so far. Reading
  \<^verbatim>\<open>q.question\<close> of a candidate that is \<^verbatim>\<open>null\<close> throws a \<^verbatim>\<open>TypeError\<close>, which
  nothing in the step catches.
\<close>

fun validate_loop :: "json list \<Rightarrow> json list \<Rightarrow> js_error + json list" where
  "validate_loop [] validated = Inr validated"
| "validate_loop (q # qs) validated =
     (if q = JNull then Inl TypeError
      else if \<not> truthy (property q ''question'') \<or> \<not> truthy (property q ''correctAnswer'')
              \<or> \<not> truthy (property q ''explanation'')
      then validate_loop qs validated
      else validate_loop qs (validated @ [validatedQ q (length validated)]))"

text \<open>
  \<^verbatim>\<open>for (const q of generatedQuestions)\<close> runs over an array; over a string it runs
  over its characters, none of which has a property \<^verbatim>\<open>question\<close>; nothing else that
  JSON holds is iterable. \<^verbatim>\<open>slice(0, questionCount)\<close> is \<open>take\<close>.
\<close>

definition validate_questions :: "json \<Rightarrow> nat \<Rightarrow> js_error + json list" where
  "validate_questions generatedQuestions questionCount =
     (case generatedQuestions of
        JArr qs \<Rightarrow>
          (case validate_loop qs [] of
             Inl e \<Rightarrow> Inl e
           | Inr validated \<Rightarrow> Inr (take questionCount validated))
      | JStr s \<Rightarrow> Inr []
      | _ \<Rightarrow> Inl TypeError)"

section \<open>Observations used by the properties\<close>

text \<open>The entry of a topic, as \<^verbatim>\<open>topicsStudied.find(t => t.topic === topic)\<close> finds it.\<close>

definition topic_entry :: "UserState \<Rightarrow> string \<Rightarrow> TopicProgress option" where
  "topic_entry s t = find (\<lambda>e. topic e = Some t) (topicsStudied (progress s))"

text \<open>The entry that \<open>updateTopicProgress\<close> pushes for a topic it does not find.\<close>

definition new_entry :: "string option \<Rightarrow> int \<Rightarrow> TopicProgress" where
  "new_entry t now =
     \<lparr>topic = t, masteryLevel = Fin 0, timeSpent = Fin 0, sessionsCount = 0,
      quizAverage = Fin 0, lastStudied = now, topic_nextReview = None\<rparr>"

text \<open>The stored results that belong to a stored quiz of the topic, and their mean.\<close>

definition topic_results :: "UserState \<Rightarrow> string \<Rightarrow> QuizResult list" where
  "topic_results s t =
     filter (\<lambda>r. case quizzes s (quizId r) of None \<Rightarrow> False | Some q \<Rightarrow> quiz_topic q = t)
       (quizResults s)"

definition topic_mean :: "UserState \<Rightarrow> string \<Rightarrow> jsnum" where
  "topic_mean s t =
     jdiv (jsum (map percentage (topic_results s t)))
       (Fin (of_nat (length (topic_results s t))))"

text \<open>
  A completion is the id of a stored session with the clock reading of the call. Its
  minutes and its topic are those of the stored session.
\<close>

definition session_minutes :: "UserState \<Rightarrow> string \<times> int \<Rightarrow> rat" where
  "session_minutes s c =
     (case sessions s (fst c) of
        None \<Rightarrow> 0
      | Some x \<Rightarrow> of_int (snd c - startTime x) / 1000 / 60)"

definition on_topic :: "UserState \<Rightarrow> string \<Rightarrow> string \<Rightarrow> bool" where
  "on_topic s t sid =
     (case sessions s sid of None \<Rightarrow> False | Some x \<Rightarrow> session_topic x = t)"

definition completed :: "UserState \<Rightarrow> string \<Rightarrow> bool" where
  "completed s sid =
     (case sessions s sid of None \<Rightarrow> False | Some x \<Rightarrow> status x = Completed)"

definition topic_sessionsCount :: "UserState \<Rightarrow> string \<Rightarrow> nat" where
  "topic_sessionsCount s t = (case topic_entry s t of None \<Rightarrow> 0 | Some e \<Rightarrow> sessionsCount e)"

definition complete_all :: "(string \<times> int) list \<Rightarrow> UserState \<Rightarrow> UserState" where
  "complete_all cs s = foldl (\<lambda>s c. snd (completeSession (fst c) (snd c) s)) s cs"

text \<open>A number between 0 and 100, by the order of JavaScript (so not \<open>NaN\<close>).\<close>

definition in_range :: "jsnum \<Rightarrow> bool" where
  "in_range x = (jle (Fin 0) x \<and> jle x (Fin 100))"

text \<open>
  A quiz whose points are not negative and not all zero, and a request that saves no
  other quiz.
\<close>

definition scorable :: "Quiz \<Rightarrow> bool" where
  "scorable quiz =
     (list_all (\<lambda>q. 0 \<le> points q) (questions quiz)
      \<and> 0 < sum_list (map points (questions quiz)))"

fun saves_scorable :: "request \<times> int \<Rightarrow> bool" where
  "saves_scorable (QuizSave quiz, now) = scorable quiz"
| "saves_scorable (r, now) = True"

text \<open>
  What the Store keeps true of the topic entries when every stored quiz is scorable:
  the quiz average is in range and the mastery level is the one the formula gives.
\<close>

definition entry_ok :: "TopicProgress \<Rightarrow> bool" where
  "entry_ok e = (in_range (quizAverage e)
                 \<and> masteryLevel e = mastery (sessionsCount e) (quizAverage e))"

definition store_inv :: "UserState \<Rightarrow> bool" where
  "store_inv s =
     ((\<forall>qid quiz. quizzes s qid = Some quiz \<longrightarrow> scorable quiz)
      \<and> list_all (\<lambda>r. in_range (percentage r)) (quizResults s)
      \<and> list_all entry_ok (topicsStudied (progress s)))"

text \<open>
  The failures of extraction and parsing: the model call throws, its text has no
  \<open>{\<close> followed by a \<open>}\<close>, the matched text does not decode, or what it decodes to has
  no array under \<open>questions\<close>.
\<close>

definition extraction_fails :: "(string \<Rightarrow> json option) \<Rightarrow> ai_outcome \<Rightarrow> bool" where
  "extraction_fails parse ai =
     (case ai of
        AiThrows \<Rightarrow> True
      | AiResponse r \<Rightarrow>
          (case json_match (content_of r) of
             None \<Rightarrow> True
           | Some m \<Rightarrow>
               (case parse m of
                  None \<Rightarrow> True
                | Some v \<Rightarrow> \<not> isArray (property v ''questions''))))"

text \<open>A candidate that has its question text, its correct answer and its explanation.\<close>

definition has_required :: "json \<Rightarrow> bool" where
  "has_required q =
     (truthy (property q ''question'') \<and> truthy (property q ''correctAnswer'')
      \<and> truthy (property q ''explanation''))"

section \<open>Example data\<close>

text \<open>
  What \<^verbatim>\<open>toLowerCase\<close> does to a string of ASCII characters, which the strings of the
  examples are: the letters \<open>A\<close> to \<open>Z\<close> become \<open>a\<close> to \<open>z\<close>.
\<close>

definition ascii_lower_char :: "char \<Rightarrow> char" where
  "ascii_lower_char c =
     (case map_of (zip ''ABCDEFGHIJKLMNOPQRSTUVWXYZ'' ''abcdefghijklmnopqrstuvwxyz'') c of
        None \<Rightarrow> c
      | Some l \<Rightarrow> l)"

definition ascii_toLowerCase :: "string \<Rightarrow> string" where
  "ascii_toLowerCase s = map ascii_lower_char s"

definition example_quiz :: Quiz where
  "example_quiz =
     \<lparr>quiz_id = ''quiz_1'', quiz_topic = ''Physics'', quiz_difficulty = Beginner,
      questions =
        [\<lparr>question_id = ''q1'', question = ''Which one?'', question_type = MultipleChoice,
          options = Some [''A'', ''B''], correctAnswer = ''A'', explanation = ''E1'',
          points = 10\<rparr>,
         \<lparr>question_id = ''q2'', question = ''Is it so?'', question_type = TrueFalse,
          options = None, correctAnswer = ''True'', explanation = ''E2'', points = 15\<rparr>],
      createdAt = 0\<rparr>"

definition example_answers :: "string \<rightharpoonup> string" where
  "example_answers = [''q1'' \<mapsto> ''a'', ''q2'' \<mapsto> ''False'']"

definition example_session :: StudySession where
  "example_session =
     \<lparr>session_id = ''session_1'', session_topic = ''Physics'', duration = 30,
      session_difficulty = Beginner, startTime = 0, endTime = None, status = Active,
      messagesCount = None, summary = None\<rparr>"

text \<open>A user who studied Physics for thirty minutes and then had the example quiz saved.\<close>

definition studied_state :: UserState where
  "studied_state =
     run ascii_toLowerCase
       [(SessionCreate example_session, 0), (SessionComplete ''session_1'', 1800000),
        (QuizSave example_quiz, 1800001)] createDefaultState"

text \<open>A quiz with no question, as the validation step leaves it when it keeps no candidate.\<close>

definition empty_quiz :: Quiz where
  "empty_quiz =
     \<lparr>quiz_id = ''quiz_0'', quiz_topic = ''Physics'', quiz_difficulty = Beginner,
      questions = [], createdAt = 0\<rparr>"

definition perfect_answers :: "string \<rightharpoonup> string" where
  "perfect_answers = [''q1'' \<mapsto> ''A'', ''q2'' \<mapsto> ''true'']"

text \<open>
  A user with three sessions created, two on Physics (from 0 and from minute 20) and one
  on Algebra (from minute 10), none completed.
\<close>

definition three_sessions :: UserState where
  "three_sessions =
     run ascii_toLowerCase
       [(SessionCreate example_session, 0),
        (SessionCreate (example_session\<lparr>session_id := ''session_2'',
           session_topic := ''Algebra'', startTime := 600000\<rparr>), 600000),
        (SessionCreate (example_session\<lparr>session_id := ''session_3'',
           startTime := 1200000\<rparr>), 1200000)]
       createDefaultState"


section \<open>Properties\<close>

subsection \<open>Reading an object\<close>

lemma object_get_Some [simp]: "obj k = Some v \<Longrightarrow> object_get obj k = Own v"
  by (simp add: object_get_def)

lemma object_get_Own_iff [simp]: "object_get obj k = Own v \<longleftrightarrow> obj k = Some v"
  by (simp add: object_get_def split: option.splits)

subsection \<open>Fields that the topic updates leave alone\<close>

lemma updateTopicQuizAverage_fields [simp]:
  "quizResults (updateTopicQuizAverage t sc s) = quizResults s"
  "quizzes (updateTopicQuizAverage t sc s) = quizzes s"
  "sessions (updateTopicQuizAverage t sc s) = sessions s"
  "totalQuizzes (progress (updateTopicQuizAverage t sc s)) = totalQuizzes (progress s)"
  "totalStudyTime (progress (updateTopicQuizAverage t sc s)) = totalStudyTime (progress s)"
  "averageScore (progress (updateTopicQuizAverage t sc s)) = averageScore (progress s)"
  "recentActivity (progress (updateTopicQuizAverage t sc s)) = recentActivity (progress s)"
  by (simp_all add: updateTopicQuizAverage_def Let_def split: option.splits)

lemma updateTopicProgress_fields [simp]:
  "quizResults (updateTopicProgress t d now s) = quizResults s"
  "quizzes (updateTopicProgress t d now s) = quizzes s"
  "sessions (updateTopicProgress t d now s) = sessions s"
  "totalQuizzes (progress (updateTopicProgress t d now s)) = totalQuizzes (progress s)"
  "totalStudyTime (progress (updateTopicProgress t d now s)) = totalStudyTime (progress s)"
  "averageScore (progress (updateTopicProgress t d now s)) = averageScore (progress s)"
  "recentActivity (progress (updateTopicProgress t d now s)) = recentActivity (progress s)"
  by (simp_all add: updateTopicProgress_def Let_def split: option.splits)

subsection \<open>Scoring a submitted quiz\<close>

lemma foldl_points: "foldl (\<lambda>sum q. sum + points q) a qs = a + sum_list (map points qs)"
  by (induction qs arbitrary: a) simp_all

lemma foldl_score:
  "foldl (\<lambda>sc q. if P q then sc + points q else sc) a qs
     = a + sum_list (map points (filter P qs))"
  by (induction qs arbitrary: a) simp_all




text \<open>On numbers the sum of JavaScript is the sum, so the quotient is the mean.\<close>

lemma foldl_jadd_Fin: "foldl jadd (Fin a) (map Fin xs) = Fin (a + sum_list xs)"
  by (induction xs arbitrary: a) (simp_all add: algebra_simps)

lemma jsum_Fin: "jsum (map Fin xs) = Fin (sum_list xs)"
  by (simp add: jsum_def foldl_jadd_Fin)

text \<open>The lower-casing of the examples, on the alphabet and on what is no capital.\<close>

lemma ascii_toLowerCase_alphabet:
  "ascii_toLowerCase ''ABCDEFGHIJKLMNOPQRSTUVWXYZ'' = ''abcdefghijklmnopqrstuvwxyz''"
  "ascii_toLowerCase ''abcdefghijklmnopqrstuvwxyz 0123456789''
     = ''abcdefghijklmnopqrstuvwxyz 0123456789''"
  by (simp_all add: ascii_toLowerCase_def ascii_lower_char_def)



subsection \<open>Unknown identifiers\<close>

text \<open>
  An id that is neither stored nor a property name of \<^verbatim>\<open>Object.prototype\<close> is not
  found: \<open>submitQuiz\<close> answers 404, \<open>completeSession\<close> succeeds, and both return the
  state they were given.
\<close>

lemma object_get_Absent:
  "obj k = None \<Longrightarrow> k \<notin> set prototype_names \<Longrightarrow> object_get obj k = Absent"
  by (simp add: object_get_def)

lemma object_get_Inherited:
  "obj k = None \<Longrightarrow> k \<in> set prototype_names \<Longrightarrow> object_get obj k = Inherited"
  by (simp add: object_get_def)

lemma submitQuiz_absent:
  "quizzes s qid = None \<Longrightarrow> qid \<notin> set prototype_names \<Longrightarrow>
   submitQuiz lc qid ans now s = (Inl QuizNotFound, s)"
  by (simp add: submitQuiz_def object_get_Absent)

lemma completeSession_absent:
  "sessions s sid = None \<Longrightarrow> sid \<notin> set prototype_names \<Longrightarrow>
   completeSession sid now s = (Inr (), s)"
  by (simp add: completeSession_def object_get_Absent)

lemma completeSession_succeeds: "fst (completeSession sid now s) = Inr ()"
  by (simp add: completeSession_def Let_def split: found.splits)

text \<open>
  Claim C7. No quiz and no session is stored under the id \<^verbatim>\<open>constructor\<close> in the
  default state, and the read of that id finds the property that every object inherits.
  \<open>submitQuiz\<close> then throws, which is the answer 500 and not the not-found error;
  \<open>completeSession\<close> runs its update: the state it returns has totalStudyTime \<open>NaN\<close>
  and a progress entry of no topic with one session, so the call is no no-op.
\<close>

theorem C7_inherited_id:
  "quizzes createDefaultState ''constructor'' = None \<and>
   sessions createDefaultState ''constructor'' = None \<and>
   submitQuiz ascii_toLowerCase ''constructor'' Map.empty 5 createDefaultState
     = (Inl InternalError, createDefaultState) \<and>
   fst (completeSession ''constructor'' 5 createDefaultState) = Inr () \<and>
   snd (completeSession ''constructor'' 5 createDefaultState) \<noteq> createDefaultState \<and>
   totalStudyTime (progress (snd (completeSession ''constructor'' 5 createDefaultState)))
     = NaN \<and>
   topicsStudied (progress (snd (completeSession ''constructor'' 5 createDefaultState)))
     = [\<lparr>topic = None, masteryLevel = Fin 10, timeSpent = NaN, sessionsCount = 1,
         quizAverage = Fin 0, lastStudied = 5, topic_nextReview = None\<rparr>]"
proof -
  have g: "object_get Map.empty ''constructor'' = (Inherited :: 'a found)"
    by (simp add: object_get_def prototype_names_def)
  have q: "submitQuiz ascii_toLowerCase ''constructor'' Map.empty 5 createDefaultState
             = (Inl InternalError, createDefaultState)"
    by (simp add: submitQuiz_def createDefaultState_def g)
  have t: "totalStudyTime (progress (snd (completeSession ''constructor'' 5 createDefaultState)))
             = NaN"
    by (simp add: completeSession_def createDefaultState_def g Let_def)
  have e: "topicsStudied (progress (snd (completeSession ''constructor'' 5 createDefaultState)))
     = [\<lparr>topic = None, masteryLevel = Fin 10, timeSpent = NaN, sessionsCount = 1,
         quizAverage = Fin 0, lastStudied = 5, topic_nextReview = None\<rparr>]"
    by (simp add: completeSession_def createDefaultState_def g Let_def
        updateTopicProgress_def mastery_def)
  have n: "snd (completeSession ''constructor'' 5 createDefaultState) \<noteq> createDefaultState"
  proof
    assume "snd (completeSession ''constructor'' 5 createDefaultState) = createDefaultState"
    with t have "totalStudyTime (progress createDefaultState) = NaN"
      by simp
    then show False
      by (simp add: createDefaultState_def)
  qed
  from q t e n show ?thesis
    by (simp add: completeSession_succeeds) (simp add: createDefaultState_def)
qed

subsection \<open>Runs of requests\<close>

lemma run_Nil [simp]: "run lc [] s = s"
  by (simp add: run_def)

lemma run_Cons [simp]: "run lc (r # rs) s = run lc rs (fetch lc s r)"
  by (simp add: run_def)

lemma run_append [simp]: "run lc (rs @ rs') s = run lc rs' (run lc rs s)"
  by (simp add: run_def)

subsection \<open>The length of recentActivity\<close>

lemma recentActivity_createSession:
  "length (recentActivity (progress (createSession session s)))
     = min 50 (Suc (length (recentActivity (progress s))))"
  by (simp add: createSession_def Let_def)

lemma recentActivity_createSession_le:
  "length (recentActivity (progress (createSession session s))) \<le> 50"
  by (simp add: recentActivity_createSession)

lemma recentActivity_submitQuiz:
  "quizzes s qid = Some quiz \<Longrightarrow>
   length (recentActivity (progress (snd (submitQuiz lc qid ans now s))))
     = Suc (length (recentActivity (progress s)))"
  by (simp add: submitQuiz_def Let_def)

lemma recentActivity_saveQuiz:
  "recentActivity (progress (saveQuiz quiz s)) = recentActivity (progress s)"
  by (simp add: saveQuiz_def)

lemma recentActivity_replicate_createSession:
  "length (recentActivity (progress s)) \<le> 50 \<Longrightarrow>
   length (recentActivity (progress (run lc (replicate n (SessionCreate session, now)) s)))
     = min 50 (n + length (recentActivity (progress s)))"
  by (induction n arbitrary: s) (simp_all add: recentActivity_createSession)

text \<open>
  Claim C1. \<open>createSession\<close> cuts recentActivity to 50 entries, \<open>submitQuiz\<close> prepends
  its record and cuts nothing: after fifty sessions, a quiz submission leaves 51 entries.
\<close>

theorem C1_recentActivity_overflow:
  "length (recentActivity (progress (run ascii_toLowerCase
      (replicate 50 (SessionCreate example_session, 0)
         @ [(QuizSave example_quiz, 1), (QuizSubmit ''quiz_1'' example_answers, 2)])
      createDefaultState))) = 51"
proof -
  let ?s = "run ascii_toLowerCase (replicate 50 (SessionCreate example_session, 0))
              createDefaultState"
  have l: "length (recentActivity (progress ?s)) = 50"
    by (simp add: recentActivity_replicate_createSession createDefaultState_def)
  have q: "quizzes (saveQuiz example_quiz ?s) ''quiz_1'' = Some example_quiz"
    by (simp add: saveQuiz_def example_quiz_def)
  show ?thesis
    using recentActivity_submitQuiz [OF q, of ascii_toLowerCase example_answers 2] l
    by (simp add: recentActivity_saveQuiz)
qed

subsection \<open>Division by a zero maxScore\<close>

lemma foldl_jadd_NaN [simp]: "foldl jadd NaN xs = NaN"
  by (induction xs) simp_all

lemma foldl_jadd_mem_NaN: "NaN \<in> set xs \<Longrightarrow> foldl jadd a xs = NaN"
proof (induction xs arbitrary: a)
  case Nil
  then show ?case by simp
next
  case (Cons x xs)
  show ?case
  proof (cases "x = NaN")
    case True
    then show ?thesis by (cases a) simp_all
  next
    case False
    with Cons show ?thesis by simp
  qed
qed

lemma jsum_NaN: "NaN \<in> set xs \<Longrightarrow> jsum xs = NaN"
  by (simp add: jsum_def foldl_jadd_mem_NaN)

lemma validate_loop_discards_all:
  "(\<forall>q \<in> set qs. q \<noteq> JNull \<and> \<not> truthy (property q ''question'')) \<Longrightarrow>
   validate_loop qs validated = Inr validated"
  by (induction qs arbitrary: validated) simp_all

text \<open>
  Claim C10. A stored quiz with no question has maxScore 0: \<open>submitQuiz\<close> divides by
  it, the percentage of the result is \<open>NaN\<close>, and so is averageScore, after this
  submission and after every later one. The percentage is a number whenever maxScore is
  not 0. \<open>saveQuiz\<close> stores any quiz, and the validation step returns no question when
  every candidate lacks its question text.
\<close>

theorem C10_empty_quiz_percentage:
  "(quizzes s qid = Some quiz \<and> questions quiz = [] \<longrightarrow>
      (\<exists>r s'. submitQuiz lc qid ans now s = (Inr r, s') \<and> score r = 0 \<and> maxScore r = 0 \<and>
         percentage r = NaN \<and> averageScore (progress s') = NaN)) \<and>
   (quizzes s qid = Some quiz \<and> NaN \<in> set (map percentage (quizResults s)) \<longrightarrow>
      averageScore (progress (snd (submitQuiz lc qid ans now s))) = NaN) \<and>
   (quizzes s qid = Some quiz \<and> sum_list (map points (questions quiz)) \<noteq> 0 \<longrightarrow>
      (\<exists>r s' p. submitQuiz lc qid ans now s = (Inr r, s') \<and> percentage r = Fin p)) \<and>
   quizzes (saveQuiz quiz s) (quiz_id quiz) = Some quiz \<and>
   ((\<forall>q \<in> set qs. q \<noteq> JNull \<and> \<not> truthy (property q ''question'')) \<longrightarrow>
      validate_questions (JArr qs) n = Inr [])"
proof -
  have a: "quizzes s qid = Some quiz \<and> questions quiz = [] \<longrightarrow>
      (\<exists>r s'. submitQuiz lc qid ans now s = (Inr r, s') \<and> score r = 0 \<and> maxScore r = 0 \<and>
         percentage r = NaN \<and> averageScore (progress s') = NaN)"
    by (simp add: submitQuiz_def Let_def jsum_NaN)
  have b: "quizzes s qid = Some quiz \<and> NaN \<in> set (map percentage (quizResults s)) \<longrightarrow>
      averageScore (progress (snd (submitQuiz lc qid ans now s))) = NaN"
    by (simp add: submitQuiz_def Let_def jsum_NaN)
  have c: "quizzes s qid = Some quiz \<and> sum_list (map points (questions quiz)) \<noteq> 0 \<longrightarrow>
      (\<exists>r s' p. submitQuiz lc qid ans now s = (Inr r, s') \<and> percentage r = Fin p)"
    by (simp add: submitQuiz_def Let_def foldl_points)
  have d: "quizzes (saveQuiz quiz s) (quiz_id quiz) = Some quiz"
    by (simp add: saveQuiz_def)
  have e: "(\<forall>q \<in> set qs. q \<noteq> JNull \<and> \<not> truthy (property q ''question'')) \<longrightarrow>
      validate_questions (JArr qs) n = Inr []"
    by (simp add: validate_questions_def validate_loop_discards_all)
  from a b c d e show ?thesis by blast
qed

theorem C10_empty_quiz_percentage_witness:
  "quizzes (saveQuiz empty_quiz createDefaultState) ''quiz_0'' = Some empty_quiz \<and>
   questions empty_quiz = [] \<and>
   (\<exists>r s'. submitQuiz ascii_toLowerCase ''quiz_0'' Map.empty 7
              (saveQuiz empty_quiz createDefaultState) = (Inr r, s') \<and>
      maxScore r = 0 \<and> percentage r = NaN \<and> averageScore (progress s') = NaN) \<and>
   validate_questions (JArr [JObj [(''id'', JStr ''q1'')]]) 5 = Inr []"
proof -
  have q: "quizzes (saveQuiz empty_quiz createDefaultState) ''quiz_0'' = Some empty_quiz"
    by (simp add: saveQuiz_def empty_quiz_def)
  have e: "questions empty_quiz = []"
    by (simp add: empty_quiz_def)
  have v: "\<forall>q \<in> set [JObj [(''id'', JStr ''q1'')]].
             q \<noteq> JNull \<and> \<not> truthy (property q ''question'')"
    by simp
  from q e v
    C10_empty_quiz_percentage [of "saveQuiz empty_quiz createDefaultState" "''quiz_0''"
      empty_quiz ascii_toLowerCase Map.empty 7 "[JObj [(''id'', JStr ''q1'')]]" 5]
  show ?thesis by blast
qed

subsection \<open>The topic entry after a quiz submission\<close>

lemma find_update_first:
  "find P xs = Some e \<Longrightarrow> P (f e) \<Longrightarrow> find P (update_first P f xs) = Some (f e)"
  by (induction xs) (auto split: if_splits)

text \<open>
  The results that \<open>updateTopicQuizAverage\<close> selects are those of the stored quizzes of
  the topic: an inherited property has no topic.
\<close>

lemma of_topic_stored:
  "(case object_get qs k of Own q \<Rightarrow> quiz_topic q = t | _ \<Rightarrow> False)
     = (case qs k of None \<Rightarrow> False | Some q \<Rightarrow> quiz_topic q = t)"
  by (simp add: object_get_def split: option.splits)

lemma topic_results_updateTopicQuizAverage [simp]:
  "topic_results (updateTopicQuizAverage t sc s) u = topic_results s u"
  by (simp add: topic_results_def)

lemma updateTopicQuizAverage_absent:
  "topic_entry s t = None \<Longrightarrow> updateTopicQuizAverage t sc s = s"
  by (simp add: updateTopicQuizAverage_def topic_entry_def Let_def)

lemma updateTopicQuizAverage_found:
  assumes "topic_entry s t = Some e"
  shows "topic_entry (updateTopicQuizAverage t sc s) t
           = Some (e\<lparr>quizAverage := topic_mean s t,
                     masteryLevel := mastery (sessionsCount e) (topic_mean s t)\<rparr>)"
proof -
  let ?f = "\<lambda>e. e\<lparr>quizAverage := topic_mean s t,
                   masteryLevel := mastery (sessionsCount e) (topic_mean s t)\<rparr>"
  have e: "find (\<lambda>e. topic e = Some t) (topicsStudied (progress s)) = Some e"
    using assms by (simp add: topic_entry_def)
  then have "topic e = Some t"
    by (auto simp: find_Some_iff)
  then have "topic (?f e) = Some t" by simp
  with e have "find (\<lambda>e. topic e = Some t) (update_first (\<lambda>e. topic e = Some t) ?f
                  (topicsStudied (progress s))) = Some (?f e)"
    by (rule find_update_first)
  with e show ?thesis
    by (simp add: updateTopicQuizAverage_def topic_entry_def Let_def topic_mean_def
        topic_results_def of_topic_stored)
qed

lemma submitQuiz_result:
  assumes "quizzes s qid = Some quiz"
  shows "\<exists>r s1. submitQuiz lc qid ans now s
                  = (Inr r, updateTopicQuizAverage (quiz_topic quiz) (percentage r) s1) \<and>
           topicsStudied (progress s1) = topicsStudied (progress s) \<and>
           quizzes s1 = quizzes s \<and>
           quizResults s1 = quizResults s @ [r] \<and>
           quizId r = qid \<and>
           percentage r = jmul (jdiv
             (Fin (foldl (\<lambda>sc q. if answered_correctly lc ans q then sc + points q else sc) 0
                (questions quiz)))
             (Fin (foldl (\<lambda>sum q. sum + points q) 0 (questions quiz)))) (Fin 100)"
  using assms
  by (simp add: submitQuiz_def Let_def del: jdiv.simps jmul.simps)
     (rule exI, rule conjI, rule refl, simp)

lemma studied_state_entry:
  "topic_entry studied_state ''Physics''
     = Some \<lparr>topic = Some ''Physics'', masteryLevel = Fin 10, timeSpent = Fin 30,
             sessionsCount = 1, quizAverage = Fin 0, lastStudied = 1800000,
             topic_nextReview = None\<rparr>"
  by (simp add: studied_state_def createDefaultState_def example_session_def
        createSession_def completeSession_def saveQuiz_def updateTopicProgress_def
        topic_entry_def mastery_def Let_def)

lemma studied_state_quiz: "quizzes studied_state ''quiz_1'' = Some example_quiz"
  by (simp add: studied_state_def saveQuiz_def example_quiz_def)

lemma studied_state_results: "quizResults studied_state = []"
  by (simp add: studied_state_def createDefaultState_def example_session_def
        createSession_def completeSession_def saveQuiz_def Let_def)

lemma studied_state_mean:
  "topic_mean (snd (submitQuiz ascii_toLowerCase ''quiz_1'' example_answers 1800002
      studied_state)) ''Physics'' = Fin 40"
  by (simp add: submitQuiz_def Let_def studied_state_quiz studied_state_results
      topic_mean_def topic_results_def example_quiz_def example_answers_def
      answered_correctly_def ascii_toLowerCase_def ascii_lower_char_def jsum_def)

text \<open>
  Claim C4, as the code has it. A submission against a stored quiz succeeds. When the
  quiz's topic has an entry, the entry's quizAverage becomes the mean percentage of the
  stored results that belong to stored quizzes of the topic, its masteryLevel becomes
  \<open>min(100, sessionsCount * 10 + quizAverage * 0.5)\<close> and its sessionsCount stays. When
  the topic has no entry, \<open>updateTopicQuizAverage\<close> does nothing: topicsStudied is left
  as it was and no entry is created.
\<close>

theorem C4_quizAverage_when_entry_exists:
  assumes "quizzes s qid = Some quiz"
  shows "\<exists>r s'. submitQuiz lc qid ans now s = (Inr r, s') \<and>
     (case topic_entry s (quiz_topic quiz) of
        None \<Rightarrow> topicsStudied (progress s') = topicsStudied (progress s)
      | Some e \<Rightarrow>
         (\<exists>e'. topic_entry s' (quiz_topic quiz) = Some e' \<and>
            quizAverage e' = topic_mean s' (quiz_topic quiz) \<and>
            masteryLevel e' = Math_min (Fin 100)
               (jadd (Fin (of_nat (sessionsCount e') * 10)) (jmul (quizAverage e') (Fin (1 / 2)))) \<and>
            sessionsCount e' = sessionsCount e))"
proof -
  from submitQuiz_result [OF assms, of lc ans now]
  obtain r s1 where h:
    "submitQuiz lc qid ans now s
       = (Inr r, updateTopicQuizAverage (quiz_topic quiz) (percentage r) s1)"
    "topicsStudied (progress s1) = topicsStudied (progress s)"
    by blast
  let ?t = "quiz_topic quiz"
  let ?s' = "updateTopicQuizAverage ?t (percentage r) s1"
  have te: "topic_entry s1 ?t = topic_entry s ?t"
    using h(2) by (simp add: topic_entry_def)
  show ?thesis
  proof (cases "topic_entry s ?t")
    case None
    with te have "?s' = s1" by (simp add: updateTopicQuizAverage_absent)
    with h None show ?thesis by simp
  next
    case (Some e)
    with te have "topic_entry s1 ?t = Some e" by simp
    from updateTopicQuizAverage_found [OF this, of "percentage r"]
    have "topic_entry ?s' ?t = Some (e\<lparr>quizAverage := topic_mean s1 ?t,
             masteryLevel := mastery (sessionsCount e) (topic_mean s1 ?t)\<rparr>)" .
    moreover have "topic_mean ?s' ?t = topic_mean s1 ?t"
      by (simp add: topic_mean_def)
    ultimately show ?thesis
      using h(1) Some by (simp add: mastery_def)
  qed
qed

theorem C4_quizAverage_when_entry_exists_witness:
  "quizzes studied_state ''quiz_1'' = Some example_quiz \<and>
   (\<exists>r s' e'. submitQuiz ascii_toLowerCase ''quiz_1'' example_answers 1800002 studied_state
                 = (Inr r, s') \<and>
       topic_entry s' ''Physics'' = Some e' \<and>
       quizAverage e' = Fin 40 \<and> sessionsCount e' = 1 \<and> masteryLevel e' = Fin 30)"
proof -
  have t: "quiz_topic example_quiz = ''Physics''"
    by (simp add: example_quiz_def)
  from C4_quizAverage_when_entry_exists [OF studied_state_quiz,
      of ascii_toLowerCase example_answers 1800002]
  obtain r s' e' where h:
    "submitQuiz ascii_toLowerCase ''quiz_1'' example_answers 1800002 studied_state
       = (Inr r, s')"
    "topic_entry s' ''Physics'' = Some e'"
    "quizAverage e' = topic_mean s' ''Physics''"
    "masteryLevel e' = Math_min (Fin 100)
       (jadd (Fin (of_nat (sessionsCount e') * 10)) (jmul (quizAverage e') (Fin (1 / 2))))"
    "sessionsCount e' = 1"
    by (auto simp add: t studied_state_entry
        simp del: jadd.simps jmul.simps jdiv.simps Math_min.simps)
  from h(1) have "s' = snd (submitQuiz ascii_toLowerCase ''quiz_1'' example_answers 1800002
                             studied_state)"
    by simp
  with h(3) have a: "quizAverage e' = Fin 40"
    by (simp add: studied_state_mean)
  with h(4,5) have "masteryLevel e' = Fin 30"
    by simp
  with h a studied_state_quiz show ?thesis
    by blast
qed

text \<open>
  The claim itself fails where the topic has no entry yet: from the default state, a
  saved quiz on Physics is submitted with success and Physics still has no entry.
\<close>

theorem C4_no_entry_counterexample:
  "fst (submitQuiz ascii_toLowerCase ''quiz_1'' example_answers 7
          (saveQuiz example_quiz createDefaultState)) \<noteq> Inl QuizNotFound \<and>
   topic_entry (snd (submitQuiz ascii_toLowerCase ''quiz_1'' example_answers 7
      (saveQuiz example_quiz createDefaultState))) ''Physics'' = None"
  by (simp add: submitQuiz_def saveQuiz_def example_quiz_def createDefaultState_def Let_def
      updateTopicQuizAverage_def topic_entry_def)

subsection \<open>Completing sessions\<close>

lemma find_topic_update_first:
  assumes "\<And>x. topic (f x) = topic x"
  shows "find (\<lambda>e. topic e = u) (update_first (\<lambda>e. topic e = t) f xs)
           = (if u = t then map_option f (find (\<lambda>e. topic e = t) xs)
              else find (\<lambda>e. topic e = u) xs)"
  using assms by (induction xs) auto

lemma find_snoc:
  "find P (xs @ [y])
     = (case find P xs of None \<Rightarrow> (if P y then Some y else None) | Some x \<Rightarrow> Some x)"
  by (induction xs) auto

lemma topic_entry_updateTopicProgress:
  "topic_entry (updateTopicProgress t d now s) u
     = (if Some u = t
        then (let e = (case topic_entry s u of None \<Rightarrow> new_entry t now | Some e \<Rightarrow> e)
              in Some (e\<lparr>timeSpent := jadd (timeSpent e) d,
                         sessionsCount := sessionsCount e + 1,
                         lastStudied := now,
                         masteryLevel := mastery (sessionsCount e + 1) (quizAverage e)\<rparr>))
        else topic_entry s u)"
  by (auto simp add: topic_entry_def updateTopicProgress_def Let_def find_topic_update_first
      find_snoc new_entry_def split: option.splits)

lemma topic_sessionsCount_updateTopicProgress:
  "topic_sessionsCount (updateTopicProgress t d now s) u
     = topic_sessionsCount s u + (if Some u = t then 1 else 0)"
  by (simp add: topic_sessionsCount_def topic_entry_updateTopicProgress Let_def new_entry_def
      split: option.splits)

text \<open>The completion of a stored session.\<close>

lemma completeSession_stored:
  assumes "sessions s sid = Some x"
  shows "totalStudyTime (progress (snd (completeSession sid now s)))
           = jadd (totalStudyTime (progress s)) (Fin (session_minutes s (sid, now)))"
    and "topic_sessionsCount (snd (completeSession sid now s)) t
           = topic_sessionsCount s t + (if on_topic s t sid then 1 else 0)"
    and "sessions (snd (completeSession sid now s))
           = (sessions s)(sid \<mapsto> x\<lparr>status := Completed, endTime := Some now\<rparr>)"
  using assms
    apply (simp_all add: completeSession_def Let_def session_minutes_def on_topic_def
      topic_sessionsCount_updateTopicProgress)
  apply (auto simp add: topic_sessionsCount_def topic_entry_def)
  done

lemma completeSession_keeps:
  "session_minutes (snd (completeSession sid now s)) c = session_minutes s c"
  "on_topic (snd (completeSession sid now s)) t y = on_topic s t y"
  "sessions (snd (completeSession sid now s)) y = None \<longleftrightarrow> sessions s y = None"
  "completed (snd (completeSession sid now s)) y
     \<longleftrightarrow> completed s y \<or> (y = sid \<and> sessions s sid \<noteq> None)"
  by (auto simp add: completeSession_def Let_def session_minutes_def on_topic_def
      completed_def object_get_def split: option.splits)

lemma complete_all_Cons:
  "complete_all (c # cs) s = complete_all cs (snd (completeSession (fst c) (snd c) s))"
  by (simp add: complete_all_def)

lemma complete_all_keeps:
  "on_topic (complete_all cs s) t y = on_topic s t y"
  "completed (complete_all cs s) y
     \<longleftrightarrow> completed s y \<or> (y \<in> fst ` set cs \<and> sessions s y \<noteq> None)"
proof (induction cs arbitrary: s)
  case Nil
  {
    case 1 show ?case by (simp add: complete_all_def)
  next
    case 2 show ?case by (simp add: complete_all_def)
  }
next
  case (Cons c cs)
  {
    case 1
    show ?case by (simp add: complete_all_Cons Cons.IH completeSession_keeps)
  next
    case 2
    show ?case
      by (auto simp add: complete_all_Cons Cons.IH completeSession_keeps)
  }
qed

lemma complete_all_effect:
  assumes "\<forall>c \<in> set cs. sessions s (fst c) \<noteq> None"
  shows "(totalStudyTime (progress s) = Fin a \<longrightarrow>
            totalStudyTime (progress (complete_all cs s))
              = Fin (a + sum_list (map (session_minutes s) cs))) \<and>
         topic_sessionsCount (complete_all cs s) t
           = topic_sessionsCount s t + length (filter (on_topic s t) (map fst cs))"
  using assms
proof (induction cs arbitrary: s a)
  case Nil
  show ?case by (simp add: complete_all_def)
next
  case (Cons c cs)
  obtain sid now where c: "c = (sid, now)" by (cases c)
  from Cons.prems c obtain x where x: "sessions s sid = Some x" by auto
  let ?s1 = "snd (completeSession sid now s)"
  have m: "session_minutes ?s1 = session_minutes s"
    by (rule ext) (simp add: completeSession_keeps)
  have f: "on_topic ?s1 t = on_topic s t"
    by (rule ext) (simp add: completeSession_keeps)
  have st: "\<forall>c \<in> set cs. sessions ?s1 (fst c) \<noteq> None"
    using Cons.prems by (simp add: completeSession_keeps)
  from Cons.IH [OF st, of "a + session_minutes s (sid, now)"]
  show ?case
    by (simp add: complete_all_Cons c m f completeSession_stored [OF x] algebra_simps)
qed

text \<open>
  Claim C5. Let the ids of a sequence of calls of \<open>completeSession\<close> be pairwise
  distinct and stored, so that every call completes another session. Then totalStudyTime
  has grown by the sum of the minutes of the sessions (the clock reading of the call
  minus the start of the session, in exact arithmetic), the sessionsCount of every topic
  has grown by the number of the sessions of the sequence that are on the topic, and
  every session of the sequence is completed. From a state with no study time, no topic
  entry and no completed session, totalStudyTime is the sum of the minutes and the
  sessionsCount of every topic is the number of completed sessions on the topic.
\<close>

theorem C5_completions:
  assumes "distinct (map fst cs)"
    and "\<forall>c \<in> set cs. sessions s (fst c) \<noteq> None"
  shows "(\<forall>a. totalStudyTime (progress s) = Fin a \<longrightarrow>
            totalStudyTime (progress (complete_all cs s))
              = Fin (a + sum_list (map (session_minutes s) cs))) \<and>
         topic_sessionsCount (complete_all cs s) t
           = topic_sessionsCount s t + card {sid \<in> fst ` set cs. on_topic s t sid} \<and>
         (\<forall>c \<in> set cs. completed (complete_all cs s) (fst c)) \<and>
         (totalStudyTime (progress s) = Fin 0 \<and> topicsStudied (progress s) = [] \<and>
          (\<forall>sid. \<not> completed s sid) \<longrightarrow>
            totalStudyTime (progress (complete_all cs s))
              = Fin (sum_list (map (session_minutes s) cs)) \<and>
            topic_sessionsCount (complete_all cs s) t
              = card {sid. completed (complete_all cs s) sid
                        \<and> on_topic (complete_all cs s) t sid})"
proof -
  have n: "length (filter (on_topic s t) (map fst cs))
             = card {sid \<in> fst ` set cs. on_topic s t sid}"
  proof -
    have "{sid \<in> fst ` set cs. on_topic s t sid} = {x. on_topic s t x} \<inter> set (map fst cs)"
      by auto
    with distinct_length_filter [OF assms(1), of "on_topic s t"] show ?thesis
      by simp
  qed
  have a: "\<forall>a. totalStudyTime (progress s) = Fin a \<longrightarrow>
            totalStudyTime (progress (complete_all cs s))
              = Fin (a + sum_list (map (session_minutes s) cs))"
    using complete_all_effect [OF assms(2)] by blast
  have b: "topic_sessionsCount (complete_all cs s) t
           = topic_sessionsCount s t + card {sid \<in> fst ` set cs. on_topic s t sid}"
    using complete_all_effect [OF assms(2), of 0 t] n by simp
  have c: "\<forall>c \<in> set cs. completed (complete_all cs s) (fst c)"
    using assms(2) by (simp add: complete_all_keeps)
  have d: "topic_sessionsCount (complete_all cs s) t
              = card {sid. completed (complete_all cs s) sid
                        \<and> on_topic (complete_all cs s) t sid}"
    if z: "topicsStudied (progress s) = []" and nc: "\<forall>sid. \<not> completed s sid"
  proof -
    have "{sid. completed (complete_all cs s) sid \<and> on_topic (complete_all cs s) t sid}
            = {sid \<in> fst ` set cs. on_topic s t sid}"
    proof -
      have "on_topic s t sid \<Longrightarrow> sessions s sid \<noteq> None" for sid
        by (simp add: on_topic_def split: option.splits)
      with nc show ?thesis
        by (auto simp add: complete_all_keeps)
    qed
    with b z show ?thesis
      by (simp add: topic_sessionsCount_def topic_entry_def)
  qed
  from a b c d show ?thesis
    by simp
qed

lemma three_sessions_fields:
  "sessions three_sessions ''session_1'' = Some example_session"
  "sessions three_sessions ''session_2''
     = Some (example_session\<lparr>session_id := ''session_2'', session_topic := ''Algebra'',
          startTime := 600000\<rparr>)"
  "sessions three_sessions ''session_3''
     = Some (example_session\<lparr>session_id := ''session_3'', startTime := 1200000\<rparr>)"
  "totalStudyTime (progress three_sessions) = Fin 0"
  "topicsStudied (progress three_sessions) = []"
  by (simp_all add: three_sessions_def createSession_def createDefaultState_def
      example_session_def Let_def)

lemma three_sessions_none_completed: "\<not> completed three_sessions sid"
  by (simp add: three_sessions_def createSession_def createDefaultState_def
      example_session_def Let_def completed_def)

text \<open>
  Physics from 0 to minute 30, Algebra from minute 10 to minute 30, Physics from minute
  20 to minute 40: seventy minutes, two completed sessions on Physics and one on Algebra.
\<close>

theorem C5_completions_witness:
  "distinct (map fst [(''session_1'', 1800000 :: int), (''session_2'', 1800000),
      (''session_3'', 2400000)]) \<and>
   sessions three_sessions ''session_1'' \<noteq> None \<and>
   sessions three_sessions ''session_2'' \<noteq> None \<and>
   sessions three_sessions ''session_3'' \<noteq> None \<and>
   totalStudyTime (progress three_sessions) = Fin 0 \<and>
   topicsStudied (progress three_sessions) = [] \<and>
   (\<forall>sid. \<not> completed three_sessions sid) \<and>
   totalStudyTime (progress (complete_all
      [(''session_1'', 1800000), (''session_2'', 1800000), (''session_3'', 2400000)]
      three_sessions)) = Fin (30 + 20 + 20) \<and>
   topic_sessionsCount (complete_all
      [(''session_1'', 1800000), (''session_2'', 1800000), (''session_3'', 2400000)]
      three_sessions) ''Physics'' = 2 \<and>
   completed (complete_all
      [(''session_1'', 1800000), (''session_2'', 1800000), (''session_3'', 2400000)]
      three_sessions) ''session_1'' \<and>
   completed (complete_all
      [(''session_1'', 1800000), (''session_2'', 1800000), (''session_3'', 2400000)]
      three_sessions) ''session_2'' \<and>
   completed (complete_all
      [(''session_1'', 1800000), (''session_2'', 1800000), (''session_3'', 2400000)]
      three_sessions) ''session_3''"
proof -
  let ?cs = "[(''session_1'', 1800000 :: int), (''session_2'', 1800000),
              (''session_3'', 2400000)]"
  have d: "distinct (map fst ?cs)"
    by simp
  have st: "\<forall>c \<in> set ?cs. sessions three_sessions (fst c) \<noteq> None"
    by (simp add: three_sessions_fields)
  have k: "{sid \<in> fst ` set ?cs. on_topic three_sessions ''Physics'' sid}
             = {''session_1'', ''session_3''}"
    by (auto simp add: on_topic_def three_sessions_fields example_session_def)
  have c: "card {''session_1'', ''session_3''} = 2"
    by simp
  from C5_completions [OF d st, of "''Physics''"] d st show ?thesis
    unfolding k c
    by (simp add: three_sessions_fields three_sessions_none_completed session_minutes_def
        example_session_def topic_sessionsCount_def topic_entry_def)
qed

subsection \<open>The range and the growth of the mastery level\<close>

lemma in_range_iff: "in_range x \<longleftrightarrow> (\<exists>a. x = Fin a \<and> 0 \<le> a \<and> a \<le> 100)"
  by (cases x) (simp_all add: in_range_def)

lemma mastery_Fin: "mastery n (Fin a) = Fin (min 100 (of_nat n * 10 + a / 2))"
  by (simp add: mastery_def)

lemma mastery_in_range: "in_range q \<Longrightarrow> in_range (mastery n q)"
  by (auto simp add: in_range_iff mastery_Fin)

lemma mastery_mono: "in_range q \<Longrightarrow> jle (mastery n q) (mastery (n + 1) q)"
  by (auto simp add: in_range_iff mastery_Fin min_def algebra_simps)

lemma jle_refl: "in_range x \<Longrightarrow> jle x x"
  by (auto simp add: in_range_iff)

lemma foldl_jadd_in_range:
  "list_all in_range xs \<Longrightarrow>
   \<exists>a. foldl jadd (Fin b) xs = Fin (b + a) \<and> 0 \<le> a \<and> a \<le> 100 * of_nat (length xs)"
proof (induction xs arbitrary: b)
  case Nil
  then show ?case by simp
next
  case (Cons x xs)
  then obtain c where c: "x = Fin c" "0 \<le> c" "c \<le> 100"
    by (auto simp add: in_range_iff)
  from Cons have "list_all in_range xs" by simp
  from Cons.IH [OF this, of "b + c"]
  obtain a where "foldl jadd (Fin (b + c)) xs = Fin (b + c + a)" "0 \<le> a"
    "a \<le> 100 * of_nat (length xs)" by blast
  with c show ?case
    by (intro exI [of _ "c + a"]) (simp add: algebra_simps)
qed

lemma mean_in_range:
  assumes "list_all in_range xs" "xs \<noteq> []"
  shows "in_range (jdiv (jsum xs) (Fin (of_nat (length xs))))"
proof -
  from foldl_jadd_in_range [OF assms(1), of 0]
  obtain a where a: "jsum xs = Fin a" "0 \<le> a" "a \<le> 100 * of_nat (length xs)"
    by (auto simp add: jsum_def)
  from assms(2) have n: "0 < (of_nat (length xs) :: rat)" by simp
  have "a / of_nat (length xs) \<le> 100"
    using a(3) n by (simp add: pos_divide_le_eq)
  moreover have "0 \<le> a / of_nat (length xs)"
    using a(2) by simp
  ultimately show ?thesis
    using a(1) n by (simp add: in_range_iff)
qed

lemma sum_filter_le:
  "list_all (\<lambda>q. 0 \<le> points q) qs \<Longrightarrow>
   0 \<le> sum_list (map points (filter P qs)) \<and>
   sum_list (map points (filter P qs)) \<le> sum_list (map points qs)"
  by (induction qs) auto

lemma percentage_in_range:
  assumes "scorable quiz"
  shows "in_range (jmul (jdiv
           (Fin (foldl (\<lambda>sc q. if P q then sc + points q else sc) 0 (questions quiz)))
           (Fin (foldl (\<lambda>sum q. sum + points q) 0 (questions quiz)))) (Fin 100))"
proof -
  let ?sc = "sum_list (map points (filter P (questions quiz)))"
  let ?mx = "sum_list (map points (questions quiz))"
  from assms have mx: "0 < ?mx" and nn: "list_all (\<lambda>q. 0 \<le> points q) (questions quiz)"
    by (simp_all add: scorable_def)
  from sum_filter_le [OF nn, of P] have sc: "0 \<le> ?sc" "?sc \<le> ?mx" by simp_all
  have "?sc / ?mx * 100 \<le> 100"
    using sc mx by (simp add: pos_divide_le_eq)
  moreover have "0 \<le> ?sc / ?mx * 100" using sc mx by simp
  ultimately show ?thesis
    using mx by (simp add: foldl_points foldl_score in_range_iff)
qed

lemma list_all_update_first:
  "list_all Q xs \<Longrightarrow> (\<And>x. Q x \<Longrightarrow> Q (f x)) \<Longrightarrow> list_all Q (update_first P f xs)"
  by (induction xs) auto

lemma store_inv_default: "store_inv createDefaultState"
  by (simp add: store_inv_def createDefaultState_def)

lemma store_inv_cong:
  "store_inv s \<Longrightarrow> quizzes s1 = quizzes s \<Longrightarrow> quizResults s1 = quizResults s \<Longrightarrow>
   topicsStudied (progress s1) = topicsStudied (progress s) \<Longrightarrow> store_inv s1"
  by (simp add: store_inv_def)

lemma store_inv_saveChatMessage:
  "store_inv s \<Longrightarrow> store_inv (snd (saveChatMessage sid um ai now s))"
  by (erule store_inv_cong) (simp_all add: saveChatMessage_def Let_def split: found.splits)

lemma store_inv_createSession: "store_inv s \<Longrightarrow> store_inv (createSession session s)"
  by (simp add: store_inv_def createSession_def Let_def)

lemma store_inv_saveQuiz: "store_inv s \<Longrightarrow> scorable quiz \<Longrightarrow> store_inv (saveQuiz quiz s)"
  by (simp add: store_inv_def saveQuiz_def)

lemma entry_ok_new: "entry_ok (new_entry t now)"
  by (simp add: entry_ok_def new_entry_def mastery_def in_range_def)

lemma store_inv_updateTopicProgress:
  assumes "store_inv s"
  shows "store_inv (updateTopicProgress t d now s)"
proof -
  let ?f = "\<lambda>e. e\<lparr>timeSpent := jadd (timeSpent e) d, sessionsCount := sessionsCount e + 1,
                   lastStudied := now,
                   masteryLevel := mastery (sessionsCount e + 1) (quizAverage e)\<rparr>"
  have f: "entry_ok (?f x)" if "entry_ok x" for x
    using that by (simp add: entry_ok_def)
  from assms have xs: "list_all entry_ok (topicsStudied (progress s))"
    by (simp add: store_inv_def)
  then have "list_all entry_ok (topicsStudied (progress s) @ [new_entry t now])"
    by (simp add: entry_ok_new)
  with xs have "list_all entry_ok (update_first (\<lambda>e. topic e = t) ?f
      (case find (\<lambda>e. topic e = t) (topicsStudied (progress s)) of
         None \<Rightarrow> topicsStudied (progress s) @ [new_entry t now]
       | Some e \<Rightarrow> topicsStudied (progress s)))"
    by (intro list_all_update_first f) (simp_all split: option.splits)
  with assms show ?thesis
    unfolding new_entry_def
    by (simp add: store_inv_def updateTopicProgress_def Let_def)
qed

text \<open>
  A call of \<open>completeSession\<close> either returns the state it was given or updates the
  progress of a topic (of no topic, for an inherited id) in a state with the same
  quizzes, results and topic entries.
\<close>

lemma completeSession_cases:
  "snd (completeSession sid now s) = s \<or>
   (\<exists>u d s1. snd (completeSession sid now s) = updateTopicProgress u d now s1 \<and>
      quizzes s1 = quizzes s \<and> quizResults s1 = quizResults s \<and>
      topicsStudied (progress s1) = topicsStudied (progress s))"
proof (cases "object_get (sessions s) sid")
  case (Own x)
  have "\<exists>u d s1. snd (completeSession sid now s) = updateTopicProgress u d now s1 \<and>
      quizzes s1 = quizzes s \<and> quizResults s1 = quizResults s \<and>
      topicsStudied (progress s1) = topicsStudied (progress s)"
    unfolding completeSession_def Own Let_def found.case snd_conv
    by (rule exI, rule exI, rule exI, rule conjI, rule refl) simp
  then show ?thesis by blast
next
  case Inherited
  have "\<exists>u d s1. snd (completeSession sid now s) = updateTopicProgress u d now s1 \<and>
      quizzes s1 = quizzes s \<and> quizResults s1 = quizResults s \<and>
      topicsStudied (progress s1) = topicsStudied (progress s)"
    unfolding completeSession_def Inherited Let_def found.case snd_conv
    by (rule exI, rule exI, rule exI, rule conjI, rule refl) simp
  then show ?thesis by blast
next
  case Absent
  then show ?thesis by (simp add: completeSession_def)
qed

lemma store_inv_completeSession:
  assumes "store_inv s"
  shows "store_inv (snd (completeSession sid now s))"
proof -
  from completeSession_cases [of sid now s] show ?thesis
  proof (elim disjE exE conjE)
    assume "snd (completeSession sid now s) = s"
    with assms show ?thesis by simp
  next
    fix u d s1
    assume c: "snd (completeSession sid now s) = updateTopicProgress u d now s1"
      and k: "quizzes s1 = quizzes s" "quizResults s1 = quizResults s"
        "topicsStudied (progress s1) = topicsStudied (progress s)"
    from assms k have "store_inv s1"
      by (rule store_inv_cong)
    then show ?thesis
      unfolding c by (rule store_inv_updateTopicProgress)
  qed
qed

lemma store_inv_updateTopicQuizAverage:
  assumes "store_inv s" "topic_results s t \<noteq> []"
  shows "store_inv (updateTopicQuizAverage t sc s)"
proof (cases "topic_entry s t")
  case None
  with assms show ?thesis by (simp add: updateTopicQuizAverage_absent)
next
  case (Some e)
  let ?f = "\<lambda>e. e\<lparr>quizAverage := topic_mean s t,
                   masteryLevel := mastery (sessionsCount e) (topic_mean s t)\<rparr>"
  from assms(1) have "list_all (\<lambda>r. in_range (percentage r)) (topic_results s t)"
    by (simp add: store_inv_def topic_results_def list_all_iff)
  then have "list_all in_range (map percentage (topic_results s t))"
    by (simp add: list_all_iff)
  from mean_in_range [OF this] assms(2) have m: "in_range (topic_mean s t)"
    by (simp add: topic_mean_def)
  then have f: "entry_ok (?f x)" for x
    by (simp add: entry_ok_def)
  from assms(1) have "list_all entry_ok (topicsStudied (progress s))"
    by (simp add: store_inv_def)
  then have "list_all entry_ok
      (update_first (\<lambda>e. topic e = Some t) ?f (topicsStudied (progress s)))"
    by (rule list_all_update_first) (rule f)
  with assms(1) Some show ?thesis
    by (simp add: store_inv_def updateTopicQuizAverage_def Let_def topic_entry_def
        topic_mean_def topic_results_def of_topic_stored)
qed

lemma store_inv_submitQuiz:
  assumes "store_inv s"
  shows "store_inv (snd (submitQuiz lc qid ans now s))"
proof (cases "quizzes s qid")
  case None
  with assms show ?thesis
    by (simp add: submitQuiz_def object_get_def)
next
  case (Some quiz)
  from submitQuiz_result [OF Some, of lc ans now]
  obtain r s1 where h:
    "submitQuiz lc qid ans now s
       = (Inr r, updateTopicQuizAverage (quiz_topic quiz) (percentage r) s1)"
    "topicsStudied (progress s1) = topicsStudied (progress s)"
    "quizzes s1 = quizzes s"
    "quizResults s1 = quizResults s @ [r]"
    "quizId r = qid"
    "percentage r = jmul (jdiv
       (Fin (foldl (\<lambda>sc q. if answered_correctly lc ans q then sc + points q else sc) 0
          (questions quiz)))
       (Fin (foldl (\<lambda>sum q. sum + points q) 0 (questions quiz)))) (Fin 100)"
    by blast
  from assms Some have "scorable quiz"
    by (simp add: store_inv_def)
  then have "in_range (percentage r)"
    unfolding h(6) by (rule percentage_in_range)
  with assms h(2,3,4) have inv1: "store_inv s1"
    by (simp add: store_inv_def)
  have "r \<in> set (topic_results s1 (quiz_topic quiz))"
    using h(3,4,5) Some by (simp add: topic_results_def)
  then have "topic_results s1 (quiz_topic quiz) \<noteq> []"
    by auto
  with inv1 have "store_inv (updateTopicQuizAverage (quiz_topic quiz) (percentage r) s1)"
    by (rule store_inv_updateTopicQuizAverage)
  with h(1) show ?thesis by simp
qed

lemma store_inv_fetch: "store_inv s \<Longrightarrow> saves_scorable r \<Longrightarrow> store_inv (fetch lc s r)"
proof (cases r)
  case (Pair req now)
  assume "store_inv s" "saves_scorable r"
  with Pair show ?thesis
    by (cases req)
       (simp_all add: store_inv_saveChatMessage store_inv_createSession
          store_inv_completeSession store_inv_saveQuiz store_inv_submitQuiz)
qed

lemma store_inv_run:
  "store_inv s \<Longrightarrow> list_all saves_scorable reqs \<Longrightarrow> store_inv (run lc reqs s)"
  by (induction reqs arbitrary: s) (simp_all add: store_inv_fetch)

lemma store_inv_entry:
  assumes "store_inv s" "topic_entry s t = Some e"
  shows "entry_ok e"
proof -
  from assms(2) have "e \<in> set (topicsStudied (progress s))"
    by (auto simp add: topic_entry_def find_Some_iff)
  with assms(1) show ?thesis
    by (simp add: store_inv_def list_all_iff)
qed

lemma completeSession_mastery_mono:
  assumes "store_inv s" "topic_entry s t = Some e"
  shows "\<exists>e'. topic_entry (snd (completeSession sid now s)) t = Some e' \<and>
               jle (masteryLevel e) (masteryLevel e')"
proof -
  from assms have ok: "in_range (quizAverage e)"
    "masteryLevel e = mastery (sessionsCount e) (quizAverage e)"
    using store_inv_entry [OF assms] by (simp_all add: entry_ok_def)
  then have r: "jle (masteryLevel e) (masteryLevel e)"
    by (simp add: jle_refl mastery_in_range)
  have step: "\<exists>e'. topic_entry (updateTopicProgress u d now s1) t = Some e' \<and>
               jle (masteryLevel e) (masteryLevel e')"
    if "topicsStudied (progress s1) = topicsStudied (progress s)" for u d s1
  proof -
    from that assms(2) have e1: "topic_entry s1 t = Some e"
      by (simp add: topic_entry_def)
    show ?thesis
    proof (cases "Some t = u")
      case True
      with e1 ok mastery_mono [OF ok(1), of "sessionsCount e"] show ?thesis
        by (simp add: topic_entry_updateTopicProgress)
    next
      case False
      with e1 r show ?thesis
        by (simp add: topic_entry_updateTopicProgress)
    qed
  qed
  from completeSession_cases [of sid now s] show ?thesis
  proof (elim disjE exE conjE)
    assume "snd (completeSession sid now s) = s"
    with assms(2) r show ?thesis by simp
  next
    fix u d s1
    assume "snd (completeSession sid now s) = updateTopicProgress u d now s1"
      and "topicsStudied (progress s1) = topicsStudied (progress s)"
    with step show ?thesis by simp
  qed
qed

text \<open>
  Claim C2, as the code has it. In every state that requests reach from the default
  state, as long as every saved quiz has points that are not negative and not all zero,
  the masteryLevel of every topic lies between 0 and 100, and completing one more
  session (of any id, at any time) never lowers the masteryLevel of any topic.
\<close>

theorem C2_mastery_range_and_sessions:
  assumes "list_all saves_scorable reqs"
  shows "list_all (\<lambda>e. in_range (masteryLevel e))
           (topicsStudied (progress (run lc reqs createDefaultState))) \<and>
         (\<forall>t e. topic_entry (run lc reqs createDefaultState) t = Some e \<longrightarrow>
            (\<exists>e'. topic_entry (snd (completeSession sid now (run lc reqs createDefaultState))) t
                     = Some e' \<and>
                   jle (masteryLevel e) (masteryLevel e')))"
proof -
  from assms have inv: "store_inv (run lc reqs createDefaultState)"
    by (simp add: store_inv_run store_inv_default)
  then have "list_all entry_ok (topicsStudied (progress (run lc reqs createDefaultState)))"
    by (simp add: store_inv_def)
  then have "list_all (\<lambda>e. in_range (masteryLevel e))
           (topicsStudied (progress (run lc reqs createDefaultState)))"
    by (auto simp add: list_all_iff entry_ok_def mastery_in_range)
  with completeSession_mastery_mono [OF inv] show ?thesis
    by blast
qed

lemma studied_state_topics:
  "topicsStudied (progress studied_state)
     = [\<lparr>topic = Some ''Physics'', masteryLevel = Fin 10, timeSpent = Fin 30,
         sessionsCount = 1, quizAverage = Fin 0, lastStudied = 1800000,
         topic_nextReview = None\<rparr>]"
  by (simp add: studied_state_def createDefaultState_def example_session_def
        createSession_def completeSession_def saveQuiz_def updateTopicProgress_def
        mastery_def Let_def)

lemma studied_state_session:
  "sessions studied_state ''session_1''
     = Some (example_session\<lparr>status := Completed, endTime := Some 1800000\<rparr>)"
  by (simp add: studied_state_def createDefaultState_def example_session_def
        createSession_def completeSession_def saveQuiz_def Let_def)

theorem C2_mastery_range_and_sessions_witness:
  "list_all saves_scorable
     [(SessionCreate example_session, 0), (SessionComplete ''session_1'', 1800000),
      (QuizSave example_quiz, 1800001)] \<and>
   list_all (\<lambda>e. in_range (masteryLevel e)) (topicsStudied (progress studied_state)) \<and>
   (\<exists>e'. topic_entry (snd (completeSession ''session_1'' 3600000 studied_state)) ''Physics''
            = Some e' \<and> jle (Fin 10) (masteryLevel e'))"
proof -
  let ?reqs = "[(SessionCreate example_session, 0), (SessionComplete ''session_1'', 1800000),
      (QuizSave example_quiz, 1800001)]"
  have v: "list_all saves_scorable ?reqs"
    by (simp add: scorable_def example_quiz_def)
  have s: "run ascii_toLowerCase ?reqs createDefaultState = studied_state"
    by (simp only: studied_state_def)
  from C2_mastery_range_and_sessions [OF v, of ascii_toLowerCase "''session_1''" 3600000]
  show ?thesis
    unfolding s using v studied_state_entry by fastforce
qed

text \<open>
  The claim itself fails for quiz results: after one session and a quiz answered in full
  the level of Physics is 60, and a second submission with no answer brings it down to
  35. It fails for the range as well once a quiz without questions is submitted: the
  level is then \<open>NaN\<close>.
\<close>

theorem C2_quiz_lowers_mastery_counterexample:
  "map_option masteryLevel (topic_entry
      (run ascii_toLowerCase [(QuizSubmit ''quiz_1'' perfect_answers, 1800002)]
         studied_state) ''Physics'')
     = Some (Fin 60) \<and>
   map_option masteryLevel (topic_entry
      (run ascii_toLowerCase [(QuizSubmit ''quiz_1'' perfect_answers, 1800002),
            (QuizSubmit ''quiz_1'' Map.empty, 1800003)] studied_state) ''Physics'')
     = Some (Fin 35) \<and>
   \<not> jle (Fin 60) (Fin 35) \<and>
   map_option masteryLevel (topic_entry
      (run ascii_toLowerCase
         [(QuizSave empty_quiz, 1800002), (QuizSubmit ''quiz_0'' Map.empty, 1800003)]
         studied_state) ''Physics'')
     = Some NaN \<and>
   \<not> in_range NaN"
  by (simp add: submitQuiz_def updateTopicQuizAverage_def saveQuiz_def Let_def
      studied_state_quiz studied_state_results studied_state_topics topic_entry_def
      mastery_def jsum_def example_quiz_def empty_quiz_def perfect_answers_def
      answered_correctly_def ascii_toLowerCase_def ascii_lower_char_def in_range_def)

subsection \<open>Mastery update and repetition schedule of the study session workflow\<close>

lemma load_progress_absent:
  "find (\<lambda>e. topic e = Some t) topics = None \<Longrightarrow>
   load_progress t topics = \<lparr>prev_masteryLevel = 0, prev_timeSpent = 0, prev_sessionsCount = 0\<rparr>"
  by (simp add: load_progress_def)

text \<open>
  Claim C6. For a prior mastery level \<open>p\<close> between 0 and 100 and a duration \<open>d\<close>
  between 5 and 120 minutes, the update-mastery step returns the previous level \<open>p\<close>,
  the new level \<open>min(100, p + 5 + min(10, floor(d / 10)))\<close> and their difference as
  the increase; the new level is between \<open>p\<close> and 100. The schedule-repetition step
  returns 7 days from level 80, 3 from 60, 2 from 40 and 1 below, the next review that
  many days after \<open>now\<close> in milliseconds, the new level and the topic.
\<close>

theorem C6_mastery_update_and_schedule:
  fixes p d :: rat and prev :: PreviousProgress and t :: string and now :: int
  assumes "0 \<le> p" "p \<le> 100" "5 \<le> d" "d \<le> 120"
    and "prev_masteryLevel prev = p"
  defines "u \<equiv> update_mastery prev d"
  defines "r \<equiv> schedule_repetition t u now"
  shows "previousLevel u = p \<and>
         newLevel u = min 100 (p + 5 + min 10 (of_int \<lfloor>d / 10\<rfloor>)) \<and>
         increase u = newLevel u - p \<and>
         p \<le> newLevel u \<and> newLevel u \<le> 100 \<and>
         intervalDays r = (if 80 \<le> newLevel u then 7 else if 60 \<le> newLevel u then 3
                           else if 40 \<le> newLevel u then 2 else 1) \<and>
         schedule_nextReview r = now + intervalDays r * (24 * 60 * 60 * 1000) \<and>
         schedule_masteryLevel r = newLevel u \<and> schedule_topic r = t"
proof -
  have "0 \<le> \<lfloor>d / 10\<rfloor>"
    using assms(3) by simp
  then have "(0::rat) \<le> min 10 (of_int \<lfloor>d / 10\<rfloor>)"
    by simp
  then have "p \<le> min 100 (p + 5 + min 10 (of_int \<lfloor>d / 10\<rfloor>))"
    using assms(2) by simp
  then show ?thesis
    using assms(5) by (simp add: u_def r_def update_mastery_def schedule_repetition_def Let_def)
qed

text \<open>
  The scenario of the specification: a first session of 30 minutes on Physics gives
  level 8 and a review after one day.
\<close>

theorem C6_mastery_update_and_schedule_witness:
  "(0::rat) \<le> 0 \<and> (0::rat) \<le> 100 \<and> (5::rat) \<le> 30 \<and> (30::rat) \<le> 120 \<and>
   load_progress ''Physics'' [] = \<lparr>prev_masteryLevel = 0, prev_timeSpent = 0, prev_sessionsCount = 0\<rparr> \<and>
   newLevel (update_mastery (load_progress ''Physics'' []) 30) = 8 \<and>
   increase (update_mastery (load_progress ''Physics'' []) 30) = 8 \<and>
   intervalDays (schedule_repetition ''Physics'' (update_mastery (load_progress ''Physics'' []) 30) 1000) = 1 \<and>
   schedule_nextReview (schedule_repetition ''Physics'' (update_mastery (load_progress ''Physics'' []) 30) 1000) = 86401000"
proof -
  have l: "load_progress ''Physics'' [] = \<lparr>prev_masteryLevel = 0, prev_timeSpent = 0, prev_sessionsCount = 0\<rparr>"
    by (simp add: load_progress_def)
  have f: "\<lfloor>(30::rat) / 10\<rfloor> = 3" by simp
  from C6_mastery_update_and_schedule [of 0 30 "load_progress ''Physics'' []" "''Physics''" 1000]
  show ?thesis
    by (simp add: l f)
qed

subsection \<open>The fallback questions\<close>

lemma fallback_loop_eq:
  "fallback_loop t c ks i qs = qs @ map (fallback_question t ks) [i..<min c 5]"
proof (induction t c ks i qs rule: fallback_loop.induct)
  case (1 t c ks i qs)
  show ?case
  proof (cases "i < min c 5")
    case True
    then have "[i..<min c 5] = i # [i + 1..<min c 5]"
      by (simp add: upt_conv_Cons)
    with True "1.IH" show ?thesis
      by (subst fallback_loop.simps) simp
  next
    case False
    then show ?thesis
      by (subst fallback_loop.simps) auto
  qed
qed

lemma getFallbackQuestions_eq:
  "getFallbackQuestions t c ks = map (fallback_question t ks) [0..<min c 5]"
  by (simp add: getFallbackQuestions_def fallback_loop_eq)

lemma extract_questions_fallback:
  assumes "extraction_fails parse ai"
  shows "extract_questions parse ai put_ok t c ks = JArr (getFallbackQuestions t c ks)"
proof -
  have "isArray (property v ''questions'')"
    if "property v ''questions'' = Some qs" "isArray (Some qs)" for v qs
    using that by simp
  with assms show ?thesis
    by (auto simp add: extract_questions_def extraction_fails_def Let_def
        split: ai_outcome.splits option.splits json.splits)
qed

text \<open>
  With nothing usable in the cache the step runs the \<^verbatim>\<open>try\<close> block, so it returns the
  fallback questions when extraction fails.
\<close>

lemma generate_questions_fallback:
  assumes "cached = None \<or> cached = Some []" "extraction_fails parse ai"
  shows "generate_questions parse cached ai put_ok t c ks
           = Inr (JArr (getFallbackQuestions t c ks))"
  using assms(1) extract_questions_fallback [OF assms(2)]
  by (auto simp add: generate_questions_def)

text \<open>
  The key concepts come from the identify-concepts step, which keeps no empty string:
  every concept is a text of its own, so none gives way to the topic.
\<close>

lemma identify_concepts_nonempty: "[] \<notin> set (identify_concepts ai t)"
  by (auto simp add: identify_concepts_def Let_def split: ai_outcome.splits)

lemma fallback_concept_nonempty:
  "[] \<notin> set ks \<Longrightarrow>
   fallback_concept t ks i = (if ks = [] then t else ks ! (i mod length ks))"
proof (cases "ks = []")
  case True
  then show ?thesis by (simp add: fallback_concept_def)
next
  case False
  then have "ks ! (i mod length ks) \<in> set ks"
    by simp
  moreover assume "[] \<notin> set ks"
  ultimately have "ks ! (i mod length ks) \<noteq> []"
    by metis
  with False show ?thesis by (simp add: fallback_concept_def)
qed

text \<open>
  Claim C9. Whenever extraction or parsing of the model output fails (the model call
  throws, no braces are found, the text does not decode, or there is no array under
  \<open>questions\<close>), the \<^verbatim>\<open>try\<close> block of the generation step returns \<open>min(c, 5)\<close>
  questions for every topic, every count \<open>c\<close> and every list of key concepts (texts
  that are not empty, as the identify-concepts step returns them). The \<open>i\<close>-th question
  (from 0) is of type short-answer, is worth 10 points and asks
  \<^verbatim>\<open>Explain your understanding of <concept>.\<close> where the concept is the element
  \<open>i mod length\<close> of the key concepts, and the topic when there is no key concept.
\<close>

theorem C9_fallback_questions:
  assumes "extraction_fails parse ai" and "[] \<notin> set ks"
  shows "\<exists>qs. extract_questions parse ai put_ok t c ks = JArr qs \<and>
           length qs = min c 5 \<and>
           (\<forall>i < min c 5.
              qs ! i =
                (let concept = (if ks = [] then t else ks ! (i mod length ks))
                 in JObj [(''id'', JStr (''q'' @ string_of_nat (i + 1))),
                          (''question'',
                             JStr (''Explain your understanding of '' @ concept @ ''.'')),
                          (''type'', JStr ''short-answer''),
                          (''correctAnswer'', JStr ''Open-ended answer''),
                          (''explanation'',
                             JStr (''This tests your understanding of '' @ concept @ ''.'')),
                          (''points'', JNum 10)]))"
  using extract_questions_fallback [OF assms(1), of put_ok t c ks]
    fallback_concept_nonempty [OF assms(2), of t]
  by (simp add: getFallbackQuestions_eq fallback_question_def Let_def)

text \<open>
  The model names two concepts and then answers with a text that does not decode: of
  seven requested questions five are returned, the third on the first concept again.
\<close>

theorem C9_fallback_questions_witness:
  "extraction_fails (\<lambda>m. None) (AiResponse (Some ''I cannot do { that }'')) \<and>
   identify_concepts (AiResponse (Some ''Forces, Energy'')) ''Physics''
     = [''Forces'', ''Energy''] \<and>
   [] \<notin> set [''Forces'', ''Energy''] \<and>
   (\<exists>qs. extract_questions (\<lambda>m. None) (AiResponse (Some ''I cannot do { that }'')) True
            ''Physics'' 7 [''Forces'', ''Energy''] = JArr qs \<and>
      length qs = 5 \<and>
      qs ! 2 =
        JObj [(''id'', JStr ''q3''),
              (''question'', JStr ''Explain your understanding of Forces.''),
              (''type'', JStr ''short-answer''),
              (''correctAnswer'', JStr ''Open-ended answer''),
              (''explanation'', JStr ''This tests your understanding of Forces.''),
              (''points'', JNum 10)])"
proof -
  have f: "extraction_fails (\<lambda>m. None) (AiResponse (Some ''I cannot do { that }''))"
    by (simp add: extraction_fails_def content_of_def json_match_def)
  have k: "identify_concepts (AiResponse (Some ''Forces, Energy'')) ''Physics''
             = [''Forces'', ''Energy'']"
    by (simp add: identify_concepts_def trim_def is_space_def)
  have e: "[] \<notin> set [''Forces'', ''Energy'']"
    by simp
  have n: "string_of_nat 3 = ''3''"
    by (simp add: string_of_nat.simps)
  have m: "(2::nat) mod Suc (Suc 0) = 0"
    by (simp add: numeral_2_eq_2)
  from C9_fallback_questions [OF f e, of True "''Physics''" 7]
  obtain qs where q:
    "extract_questions (\<lambda>m. None) (AiResponse (Some ''I cannot do { that }'')) True
       ''Physics'' 7 [''Forces'', ''Energy''] = JArr qs"
    "length qs = min 7 5"
    "\<forall>i < min 7 5. qs ! i =
       (let concept = (if [''Forces'', ''Energy''] = [] then ''Physics''
                       else [''Forces'', ''Energy''] ! (i mod length [''Forces'', ''Energy'']))
        in JObj [(''id'', JStr (''q'' @ string_of_nat (i + 1))),
                 (''question'', JStr (''Explain your understanding of '' @ concept @ ''.'')),
                 (''type'', JStr ''short-answer''),
                 (''correctAnswer'', JStr ''Open-ended answer''),
                 (''explanation'',
                    JStr (''This tests your understanding of '' @ concept @ ''.'')),
                 (''points'', JNum 10)])"
    by blast
  from q(3) [rule_format, of 2]
  have "qs ! 2 =
     JObj [(''id'', JStr ''q3''),
           (''question'', JStr ''Explain your understanding of Forces.''),
           (''type'', JStr ''short-answer''),
           (''correctAnswer'', JStr ''Open-ended answer''),
           (''explanation'', JStr ''This tests your understanding of Forces.''),
           (''points'', JNum 10)]"
    by (simp add: n m)
  with f k e q(1,2) show ?thesis
    by simp
qed

subsection \<open>The validation step\<close>

lemma validate_loop_eq:
  "JNull \<notin> set qs \<Longrightarrow>
   validate_loop qs validated
     = Inr (validated @ map (\<lambda>(n, q). validatedQ q n)
                          (enumerate (length validated) (filter has_required qs)))"
proof (induction qs arbitrary: validated)
  case Nil
  show ?case by simp
next
  case (Cons q qs)
  then have IH: "validate_loop qs v
     = Inr (v @ map (\<lambda>(n, q). validatedQ q n) (enumerate (length v) (filter has_required qs)))"
    for v by simp
  from Cons.prems have "q \<noteq> JNull" by auto
  moreover have "(\<not> truthy (property q ''question'') \<or> \<not> truthy (property q ''correctAnswer'')
           \<or> \<not> truthy (property q ''explanation'')) = (\<not> has_required q)"
    by (simp add: has_required_def)
  ultimately show ?case
    by (simp add: IH)
qed

lemma validate_questions_eq:
  "JNull \<notin> set qs \<Longrightarrow>
   validate_questions (JArr qs) n
     = Inr (take n (map (\<lambda>(i, q). validatedQ q i) (enumerate 0 (filter has_required qs))))"
  by (simp add: validate_questions_def validate_loop_eq)

text \<open>
  What the validation step does with candidates none of which is \<^verbatim>\<open>null\<close>: it keeps
  those that have a question text, a correct answer and an explanation, in their order,
  gives the \<open>i\<close>-th kept one (from 0) its own id or else \<open>q(i+1)\<close>, its own type or
  else short-answer, its own points or else 10, and returns the first \<open>n\<close> of them.
\<close>

lemma validate_questions_kept:
  assumes "JNull \<notin> set qs"
  shows "\<exists>out. validate_questions (JArr qs) n = Inr out \<and>
           length out = min n (length (filter has_required qs)) \<and>
           (\<forall>i < length out.
              property (out ! i) ''id''
                = Some (or_else (property (filter has_required qs ! i) ''id'')
                          (JStr (''q'' @ string_of_nat (i + 1)))) \<and>
              property (out ! i) ''question'' = property (filter has_required qs ! i) ''question'' \<and>
              property (out ! i) ''correctAnswer''
                = property (filter has_required qs ! i) ''correctAnswer'' \<and>
              property (out ! i) ''explanation''
                = property (filter has_required qs ! i) ''explanation'' \<and>
              property (out ! i) ''type''
                = Some (or_else (property (filter has_required qs ! i) ''type'')
                          (JStr ''short-answer'')) \<and>
              property (out ! i) ''points''
                = Some (or_else (property (filter has_required qs ! i) ''points'') (JNum 10)))"
proof -
  let ?kept = "filter has_required qs"
  let ?out = "take n (map (\<lambda>(i, q). validatedQ q i) (enumerate 0 ?kept))"
  have len: "length ?out = min n (length ?kept)"
    by simp
  have nth: "?out ! i = validatedQ (?kept ! i) i" if "i < length ?out" for i
    using that by (simp add: nth_enumerate_eq)
  have fields:
    "property (validatedQ q i) ''id''
       = Some (or_else (property q ''id'') (JStr (''q'' @ string_of_nat (i + 1))))"
    "property (validatedQ q i) ''question'' = property q ''question''"
    "property (validatedQ q i) ''correctAnswer'' = property q ''correctAnswer''"
    "property (validatedQ q i) ''explanation'' = property q ''explanation''"
    "property (validatedQ q i) ''type''
       = Some (or_else (property q ''type'') (JStr ''short-answer''))"
    "property (validatedQ q i) ''points''
       = Some (or_else (property q ''points'') (JNum 10))" for q i
    by (simp_all add: validatedQ_def field_def split: option.splits)
  show ?thesis
    using validate_questions_eq [OF assms, of n] len nth fields by auto
qed

text \<open>
  Claim C8. A candidate that is \<^verbatim>\<open>null\<close> is not discarded: the model's text
  \<^verbatim>\<open>{"questions":[null]}\<close> passes extraction, parsing and the array test of the
  generation step, and the validation step throws a \<^verbatim>\<open>TypeError\<close> on it.
\<close>

theorem C8_null_candidate:
  \<open>json_match ''Here: {"questions":[null]}'' = Some ''{"questions":[null]}'' \<and>
   generate_questions
     (\<lambda>m. if m = ''{"questions":[null]}'' then Some (JObj [(''questions'', JArr [JNull])])
           else None)
     None (AiResponse (Some ''Here: {"questions":[null]}'')) True ''Physics'' 5 [''Forces'']
     = Inr (JArr [JNull]) \<and>
   validate_questions (JArr [JNull]) 5 = Inl TypeError\<close>
  by (simp add: json_match_def generate_questions_def extract_questions_def content_of_def
      validate_questions_def)

end
